theory Spec2Isabelle
  imports Complex_Main "HOL-Library.AList" "HOL-Library.Word"
begin

section \<open>JavaScript values used by the scripts\<close>

text \<open>
  The scripts are TypeScript run on Node. An optional field or an unset environment
  variable is \<open>undefined\<close>, modelled as \<open>None\<close>. The tests \<open>!x\<close>, \<open>x || y\<close> and
  \<open>x && y\<close> go through JavaScript truthiness: \<open>undefined\<close>, the empty string, \<open>false\<close>,
  \<open>0\<close> and \<open>NaN\<close> are falsy, everything else is truthy.
\<close>

type_synonym env = "string \<Rightarrow> string option"

definition truthy_str :: "string option \<Rightarrow> bool" where
  "truthy_str s = (case s of None \<Rightarrow> False | Some v \<Rightarrow> v \<noteq> [])"

definition truthy_bool :: "bool option \<Rightarrow> bool" where
  "truthy_bool b = (case b of None \<Rightarrow> False | Some v \<Rightarrow> v)"

definition or_str :: "string option \<Rightarrow> string option \<Rightarrow> string option" where
  \<comment> \<open>\<open>a || b\<close> on optional strings\<close>
  "or_str a b = (if truthy_str a then a else b)"

text \<open>
  A JavaScript number. Finite values are kept as exact rationals (the rounding of a
  decimal literal to a double is not modelled: the literal \<open>1.2\<close> and the parsed
  string \<open>'1.2'\<close> are the same double, here the same rational).
\<close>

datatype number = NaN | PosInfinity | NegInfinity | Num rat

definition truthy_num :: "number option \<Rightarrow> bool" where
  "truthy_num n = (case n of None \<Rightarrow> False | Some NaN \<Rightarrow> False
                    | Some (Num r) \<Rightarrow> r \<noteq> 0 | Some _ \<Rightarrow> True)"

definition or_num :: "number option \<Rightarrow> number \<Rightarrow> number" where
  \<comment> \<open>\<open>a || d\<close> with a numeric literal \<open>d\<close> on the right\<close>
  "or_num a d = (if truthy_num a then the a else d)"

definition truthy_int :: "int option \<Rightarrow> bool" where
  \<comment> \<open>truthiness of an optional integer-valued number such as \<open>protocolVersion\<close>\<close>
  "truthy_int v = (case v of None \<Rightarrow> False | Some n \<Rightarrow> n \<noteq> 0)"

subsection \<open>parseInt and parseFloat\<close>

text \<open>
  \<open>parseInt(s)\<close> with no radix: leading white space is skipped, a sign is read, a
  \<open>0x\<close>/\<open>0X\<close> prefix selects radix 16, and the longest prefix of digits is converted;
  no digit gives \<open>NaN\<close>. \<open>parseFloat(s)\<close> reads the longest prefix that is a decimal
  literal (\<open>Infinity\<close>, or digits with an optional fraction and exponent). White
  space is the ASCII white space (TAB, LF, VT, FF, CR, SP); the Unicode white space that
  JavaScript also skips (U+00A0, U+FEFF and others) is not. The values are exact: an
  integer above \<open>2^53\<close> is not rounded, and a large or small exponent gives the exact
  power of ten, where a double would round, overflow to \<open>Infinity\<close> or underflow to \<open>0\<close>.
\<close>

definition is_ws :: "char \<Rightarrow> bool" where
  "is_ws c = (c \<in> set [CHR 0x09, CHR 0x0A, CHR 0x0B, CHR 0x0C, CHR 0x0D, CHR 0x20])"

definition digit_val :: "nat \<Rightarrow> char \<Rightarrow> nat option" where
  "digit_val radix c =
     (case map_of (zip ''0123456789abcdef'' [0..<16] @ zip ''ABCDEF'' [10..<16]) c of
        None \<Rightarrow> None
      | Some d \<Rightarrow> if d < radix then Some d else None)"

definition is_digit :: "nat \<Rightarrow> char \<Rightarrow> bool" where
  "is_digit radix c = (digit_val radix c \<noteq> None)"

definition digits_value :: "nat \<Rightarrow> string \<Rightarrow> nat" where
  "digits_value radix ds = foldl (\<lambda>acc c. acc * radix + the (digit_val radix c)) 0 ds"

definition read_sign :: "string \<Rightarrow> int \<times> string" where
  "read_sign s = (case s of
       c # rest \<Rightarrow> if c = CHR ''-'' then (-1, rest)
                   else if c = CHR ''+'' then (1, rest) else (1, s)
     | [] \<Rightarrow> (1, s))"

definition parseInt :: "string \<Rightarrow> number" where
  "parseInt str =
     (let (sign, s) = read_sign (dropWhile is_ws str);
          (radix, s') = (if take 2 s = ''0x'' \<or> take 2 s = ''0X'' then (16, drop 2 s) else (10, s));
          z = takeWhile (is_digit radix) s'
      in if z = [] then NaN else Num (of_int (sign * int (digits_value radix z))))"

definition read_exponent :: "string \<Rightarrow> int" where
  \<comment> \<open>the exponent part at the head of the rest of the string, \<open>0\<close> when there is none\<close>
  "read_exponent s = (case s of
       c # rest \<Rightarrow>
         if c = CHR ''e'' \<or> c = CHR ''E'' then
           (let (sign, r) = read_sign rest; ds = takeWhile (is_digit 10) r
            in if ds = [] then 0 else sign * int (digits_value 10 ds))
         else 0
     | [] \<Rightarrow> 0)"

definition scale10 :: "rat \<Rightarrow> int \<Rightarrow> rat" where
  "scale10 r e = (if 0 \<le> e then r * 10 ^ nat e else r / 10 ^ nat (- e))"

definition parseFloat :: "string \<Rightarrow> number" where
  "parseFloat str =
     (let (sign, s) = read_sign (dropWhile is_ws str) in
      if take 8 s = ''Infinity'' then (if sign < 0 then NegInfinity else PosInfinity)
      else
        let ip = takeWhile (is_digit 10) s;
            s1 = dropWhile (is_digit 10) s;
            dot = (s1 \<noteq> [] \<and> hd s1 = CHR ''.'');
            fp = (if dot then takeWhile (is_digit 10) (tl s1) else []);
            s2 = (if dot then dropWhile (is_digit 10) (tl s1) else s1)
        in if ip = [] \<and> fp = [] then NaN
           else Num (of_int sign *
                  scale10 (of_nat (digits_value 10 ip)
                           + of_nat (digits_value 10 fp) / 10 ^ length fp)
                          (read_exponent s2)))"


section \<open>Options, configuration and the outside world\<close>

text \<open>
  The option interfaces of the four scripts (\<open>DeploymentOptions\<close>, \<open>UpgradeOptions\<close>,
  \<open>VerifyOptions\<close>, \<open>StatusOptions\<close>) share seven fields; the shared part is a base
  record that the others extend. The interfaces declare \<open>diamondName\<close> a string, but
  the legacy commands pass the commander options object, where it can be \<open>undefined\<close>,
  so every field is optional here.
\<close>

record CommonOptions =
  diamondName :: "string option"
  networkName :: "string option"
  rpcUrl :: "string option"
  privateKey :: "string option"
  verbose :: "bool option"
  configPath :: "string option"
  deploymentsPath :: "string option"

record StatusOptions = CommonOptions +
  onChainValidation :: "bool option"
  showConfig :: "bool option"
  showFacets :: "bool option"
  showSelectors :: "bool option"

record HardhatOptions = CommonOptions +
  useHardhatConfig :: "bool option"

record VerifyOptions = HardhatOptions +
  etherscanApiKey :: "string option"
  blockExplorerUrl :: "string option"
  verifyContracts :: "bool option"
  validateAbi :: "bool option"
  validateSelectors :: "bool option"
  compareOnChain :: "bool option"

record DeploymentOptions = HardhatOptions +
  gasLimitMultiplier :: "number option"
  maxRetries :: "number option"
  retryDelayMs :: "number option"

record UpgradeOptions = DeploymentOptions +
  targetVersion :: "number option"
  force :: "bool option"
  dryRun :: "bool option"

text \<open>\<open>RPCDiamondDeployerConfig\<close> as the scripts build it (fields prefixed \<open>cfg_\<close>).\<close>

record RPCDiamondDeployerConfig =
  cfg_diamondName :: "string option"
  cfg_rpcUrl :: "string option"
  cfg_privateKey :: "string option"
  cfg_networkName :: "string option"
  cfg_chainId :: nat
  cfg_verbose :: "bool option"
  cfg_gasLimitMultiplier :: "number option"
  cfg_maxRetries :: "number option"
  cfg_retryDelayMs :: "number option"
  cfg_configFilePath :: "string option"
  cfg_deploymentsPath :: "string option"
  cfg_writeDeployedDiamondData :: bool

text \<open>
  The scripts drive \<open>RPCDiamondDeployer\<close>, an \<open>ethers\<close> provider and the process. The
  calls they make to these are the \<open>ext\<close> constructors; what the outside answers
  during one run is a \<open>world\<close>: whether a call throws (and with which message), and the
  values the calls return.
\<close>

datatype ext =
    CreateConfigFromHardhat | NetworkQuery | GetInstance | IsDiamondDeployed
  | ValidateConfiguration | GetDiamond | DeployDiamond | GetNetworkInfo
  | GetDeploymentStatus | GetConfig

record DeployedDiamondData =
  DiamondAddress :: "string option"
  protocolVersion :: "int option"

record world =
  throws :: "ext \<Rightarrow> string option"
  hardhatConfig :: RPCDiamondDeployerConfig
  diamondDeployed :: bool
  configValid :: bool
  configErrors :: "string list"
  deployedData :: DeployedDiamondData
  deployConfigVersion :: "int option"
  deployerConfig :: RPCDiamondDeployerConfig

text \<open>
  What a run does is a list of events, and how it ends. Console decoration (banners,
  colours, emoji, balances) is left out; the lines kept are the validation errors, the
  messages that explain an early return, and the values the claims speak about.
\<close>

datatype step = ValidateABIs | ValidateSelectors | CompareOnChainState
  | ShowContractVerificationInfo | ShowConfiguration | ShowFacetsDetails
  | ShowSelectorsRegistry | ValidateOnChain | AnalyzeUpgrade | PrintUpgradeSummary

datatype event =
    Call ext
  | Provider "string option"
  | Step step
  | Error string
  | ErrorStack
  | Log string
  | LogAddress "string option"
  | LogVersion int
  | LogNum string number

datatype outcome = Returned | Exited nat

type_synonym run = "event list \<times> outcome"

definition after :: "event list \<Rightarrow> run \<Rightarrow> run" where
  "after evs r = (evs @ fst r, snd r)"

definition exit_report :: "string list \<Rightarrow> run" where
  \<comment> \<open>the tail of every \<open>validateOptions\<close>: print the header and each error, then \<open>process.exit(1)\<close>\<close>
  "exit_report errors =
     (Error ''Validation errors:'' # map (\<lambda>e. Error (''  - '' @ e)) errors, Exited 1)"

definition failed :: "string \<Rightarrow> bool option \<Rightarrow> string \<Rightarrow> run" where
  \<comment> \<open>the \<open>catch\<close> block of a main function\<close>
  "failed label verb msg =
     ([Error label, Error (''   '' @ msg)]
        @ (if truthy_bool verb then [Error ''Full error:'', ErrorStack] else []),
      Exited 1)"

definition call :: "world \<Rightarrow> ext \<Rightarrow> string \<Rightarrow> bool option \<Rightarrow> run \<Rightarrow> run" where
  \<comment> \<open>an outside call inside the main \<open>try\<close>: if it throws, the \<open>catch\<close> block runs\<close>
  "call w c label verb k =
     after [Call c] (case throws w c of Some msg \<Rightarrow> failed label verb msg | None \<Rightarrow> k)"

definition private_key :: "'a CommonOptions_scheme \<Rightarrow> env \<Rightarrow> string option" where
  "private_key options env =
     or_str (or_str (privateKey options) (env ''PRIVATE_KEY'')) (env ''TEST_PRIVATE_KEY'')"


section \<open>deploy-rpc.ts\<close>

definition validation_errors_deploy :: "'a DeploymentOptions_scheme \<Rightarrow> env \<Rightarrow> string list" where
  \<comment> \<open>the array \<open>errors\<close> of \<open>validateOptions\<close> when it reaches the final test\<close>
  "validation_errors_deploy options env =
     (let errors = [];
          errors = (if \<not> truthy_str (diamondName options)
                    then errors @ [''Diamond name is required (--diamond-name or first argument)'']
                    else errors);
          errors = (if \<not> truthy_str (networkName options)
                    then errors @ [''Network name is required (--network-name or second argument)'']
                    else errors);
          errors = (if \<not> truthy_str (privateKey options) \<and> \<not> truthy_str (env ''PRIVATE_KEY'')
                       \<and> \<not> truthy_str (env ''TEST_PRIVATE_KEY'')
                    then errors @ [''Private key is required (--private-key, PRIVATE_KEY, or TEST_PRIVATE_KEY environment variable)'']
                    else errors);
          errors = (if useHardhatConfig options = Some False
                    then (if \<not> truthy_str (rpcUrl options) \<and> \<not> truthy_str (env ''RPC_URL'')
                          then errors @ [''RPC URL is required when hardhat config is disabled (--rpc-url or RPC_URL environment variable)'']
                          else errors)
                    else errors)
      in errors)"

definition validateOptions_deploy :: "'a DeploymentOptions_scheme \<Rightarrow> env \<Rightarrow> run option" where
  \<comment> \<open>\<open>Some r\<close>: the process exits inside \<open>validateOptions\<close> with run \<open>r\<close>; \<open>None\<close>: it returns\<close>
  "validateOptions_deploy options env =
     (let errors = validation_errors_deploy options env
      in if length errors > 0 then Some (exit_report errors) else None)"

definition legacy_config_deploy :: "'a DeploymentOptions_scheme \<Rightarrow> env \<Rightarrow> RPCDiamondDeployerConfig" where
  "legacy_config_deploy options env =
     \<lparr> cfg_diamondName = diamondName options,
       cfg_rpcUrl = or_str (rpcUrl options) (env ''RPC_URL''),
       cfg_privateKey = private_key options env,
       cfg_networkName = networkName options,
       cfg_chainId = 0,
       cfg_verbose = Some (truthy_bool (verbose options)),
       cfg_gasLimitMultiplier = gasLimitMultiplier options,
       cfg_maxRetries = maxRetries options,
       cfg_retryDelayMs = retryDelayMs options,
       cfg_configFilePath = configPath options,
       cfg_deploymentsPath = deploymentsPath options,
       cfg_writeDeployedDiamondData = True \<rparr>"

definition createConfig_deploy ::
  "'a DeploymentOptions_scheme \<Rightarrow> env \<Rightarrow> world \<Rightarrow> event list \<times> RPCDiamondDeployerConfig" where
  \<comment> \<open>the events of the call and the configuration it returns\<close>
  "createConfig_deploy options env w =
     (if useHardhatConfig options \<noteq> Some False \<and> \<not> truthy_str (rpcUrl options) then
        (case throws w CreateConfigFromHardhat of
           None \<Rightarrow> ([Call CreateConfigFromHardhat], hardhatConfig w)
         | Some msg \<Rightarrow>
             ([Call CreateConfigFromHardhat,
               Error (''Failed to load hardhat configuration: '' @ msg),
               Log ''Falling back to manual configuration...''],
              legacy_config_deploy options env))
      else ([], legacy_config_deploy options env))"

definition printPreInfo :: "RPCDiamondDeployerConfig \<Rightarrow> world \<Rightarrow> run \<Rightarrow> run" where
  \<comment> \<open>\<open>printPreDeploymentInfo\<close> and \<open>printPreUpgradeInfo\<close>: a provider is built on
      \<open>config.rpcUrl\<close> and queried inside the function's own \<open>try\<close>; a failure exits\<close>
  "printPreInfo config w k =
     after [Provider (cfg_rpcUrl config), Call NetworkQuery]
       (case throws w NetworkQuery of
          Some msg \<Rightarrow> ([Error (''Failed to get network information: '' @ msg)], Exited 1)
        | None \<Rightarrow> k)"

definition validation_failed :: "world \<Rightarrow> run" where
  "validation_failed w =
     (Error ''Configuration validation failed:'' # map (\<lambda>e. Error (''  - '' @ e)) (configErrors w),
      Exited 1)"

definition report_deployed :: "world \<Rightarrow> event list" where
  \<comment> \<open>the address line, and the protocol version line under \<open>if (deployedData.protocolVersion)\<close>\<close>
  "report_deployed w =
     LogAddress (DiamondAddress (deployedData w))
       # (if truthy_int (protocolVersion (deployedData w))
          then [LogVersion (the (protocolVersion (deployedData w)))] else [])"

definition deployDiamond :: "'a DeploymentOptions_scheme \<Rightarrow> env \<Rightarrow> world \<Rightarrow> run" where
  "deployDiamond options env w =
     (case validateOptions_deploy options env of
        Some r \<Rightarrow> r
      | None \<Rightarrow>
        (let (evs, config) = createConfig_deploy options env w;
             label = ''Deployment failed:''; v = verbose options in
         after evs (
         printPreInfo config w (
         call w GetInstance label v (
         call w ValidateConfiguration label v (
           if \<not> configValid w then validation_failed w
           else
             call w IsDiamondDeployed label v (
               if diamondDeployed w then
                 after [Log ''Diamond is already deployed. Use upgrade-rpc.ts for upgrades.''] (
                 call w GetDiamond label v
                   (report_deployed w, Returned))
               else
                 after [Log ''Starting diamond deployment...''] (
                 call w DeployDiamond label v
                   ([Log ''Diamond deployment completed successfully''], Returned)))))))))"


section \<open>upgrade-rpc.ts and verify-rpc.ts\<close>

definition validation_errors_rpc :: "'a HardhatOptions_scheme \<Rightarrow> env \<Rightarrow> string list" where
  \<comment> \<open>\<open>validateOptions\<close> of upgrade-rpc.ts and of verify-rpc.ts (the same text in both)\<close>
  "validation_errors_rpc options env =
     (let errors = [];
          errors = (if \<not> truthy_str (diamondName options)
                    then errors @ [''Diamond name is required (--diamond-name or DIAMOND_NAME)'']
                    else errors);
          errors = (if \<not> truthy_str (networkName options)
                    then errors @ [''Network name is required (--network-name or NETWORK_NAME)'']
                    else errors);
          errors = (if \<not> truthy_str (privateKey options) \<and> \<not> truthy_str (env ''PRIVATE_KEY'')
                       \<and> \<not> truthy_str (env ''TEST_PRIVATE_KEY'')
                    then errors @ [''Private key is required (--private-key, PRIVATE_KEY, or TEST_PRIVATE_KEY environment variable)'']
                    else errors);
          errors = (if useHardhatConfig options = Some False
                    then (if \<not> truthy_str (rpcUrl options) \<and> \<not> truthy_str (env ''RPC_URL'')
                          then errors @ [''RPC URL is required when hardhat config is disabled (--rpc-url or RPC_URL environment variable)'']
                          else errors)
                    else errors)
      in errors)"

definition validateOptions_rpc :: "'a HardhatOptions_scheme \<Rightarrow> env \<Rightarrow> run option" where
  "validateOptions_rpc options env =
     (let errors = validation_errors_rpc options env
      in if length errors > 0 then Some (exit_report errors) else None)"

definition legacy_config_upgrade :: "'a UpgradeOptions_scheme \<Rightarrow> env \<Rightarrow> RPCDiamondDeployerConfig" where
  "legacy_config_upgrade options env =
     \<lparr> cfg_diamondName = diamondName options,
       cfg_rpcUrl = or_str (rpcUrl options) (env ''RPC_URL''),
       cfg_privateKey = private_key options env,
       cfg_networkName = or_str (networkName options) (Some ''unknown''),
       cfg_chainId = 0,
       cfg_verbose = Some (truthy_bool (verbose options)),
       cfg_gasLimitMultiplier = gasLimitMultiplier options,
       cfg_maxRetries = maxRetries options,
       cfg_retryDelayMs = retryDelayMs options,
       cfg_configFilePath = configPath options,
       cfg_deploymentsPath = deploymentsPath options,
       cfg_writeDeployedDiamondData = True \<rparr>"

definition legacy_config_verify :: "'a VerifyOptions_scheme \<Rightarrow> env \<Rightarrow> RPCDiamondDeployerConfig" where
  "legacy_config_verify options env =
     \<lparr> cfg_diamondName = diamondName options,
       cfg_rpcUrl = or_str (rpcUrl options) (env ''RPC_URL''),
       cfg_privateKey = private_key options env,
       cfg_networkName = or_str (networkName options) (Some ''unknown''),
       cfg_chainId = 0,
       cfg_verbose = Some (truthy_bool (verbose options)),
       cfg_gasLimitMultiplier = None,
       cfg_maxRetries = None,
       cfg_retryDelayMs = None,
       cfg_configFilePath = configPath options,
       cfg_deploymentsPath = deploymentsPath options,
       cfg_writeDeployedDiamondData = True \<rparr>"

definition createConfig_rpc ::
  "RPCDiamondDeployerConfig \<Rightarrow> 'a HardhatOptions_scheme \<Rightarrow> world
     \<Rightarrow> event list \<times> RPCDiamondDeployerConfig" where
  \<comment> \<open>\<open>createConfig\<close> of upgrade-rpc.ts and verify-rpc.ts, given its legacy configuration\<close>
  "createConfig_rpc legacy options w =
     (if useHardhatConfig options \<noteq> Some False \<and> \<not> truthy_str (rpcUrl options) then
        (case throws w CreateConfigFromHardhat of
           None \<Rightarrow> ([Call CreateConfigFromHardhat], hardhatConfig w)
         | Some msg \<Rightarrow>
             ([Call CreateConfigFromHardhat,
               Error (''Failed to load hardhat configuration: '' @ msg),
               Log ''Falling back to manual configuration...''],
              legacy))
      else ([], legacy))"

definition needsUpgrade :: "'a UpgradeOptions_scheme \<Rightarrow> world \<Rightarrow> bool" where
  \<comment> \<open>the truthiness of \<open>needsUpgrade\<close>\<close>
  "needsUpgrade options w =
     (truthy_bool (force options) \<or>
      (case (protocolVersion (deployedData w), deployConfigVersion w) of
         (Some deployed, Some target) \<Rightarrow> deployed \<noteq> 0 \<and> target \<noteq> 0 \<and> deployed < target
       | _ \<Rightarrow> False))"

definition step :: "world \<Rightarrow> step \<Rightarrow> string \<Rightarrow> bool option \<Rightarrow> run \<Rightarrow> run" where
  \<comment> \<open>a reporting function that starts with \<open>await deployer.getDiamond()\<close> outside any
      \<open>try\<close> of its own; what it prints afterwards is not modelled\<close>
  "step w s label verb k = after [Step s] (call w GetDiamond label verb k)"

definition when_do :: "bool \<Rightarrow> (run \<Rightarrow> run) \<Rightarrow> run \<Rightarrow> run" where
  "when_do b f k = (if b then f k else k)"

definition upgradeDiamond :: "'a UpgradeOptions_scheme \<Rightarrow> env \<Rightarrow> world \<Rightarrow> run" where
  "upgradeDiamond options env w =
     (case validateOptions_rpc options env of
        Some r \<Rightarrow> r
      | None \<Rightarrow>
        (let (evs, config) = createConfig_rpc (legacy_config_upgrade options env) options w;
             label = ''Upgrade failed:''; v = verbose options in
         after evs (
         printPreInfo config w (
         when_do (truthy_bool (dryRun options))
           (after [Log ''DRY RUN MODE - No changes will be made'']) (
         call w GetInstance label v (
         call w IsDiamondDeployed label v (
           if \<not> diamondDeployed w then
             ([Error ''Diamond is not deployed yet. Use deploy-rpc.ts first.''], Exited 1)
           else
             call w ValidateConfiguration label v (
               if \<not> configValid w then validation_failed w
               else
                 step w AnalyzeUpgrade label v (
                 call w GetDiamond label v (
                   if \<not> needsUpgrade options w \<and> \<not> truthy_bool (force options) then
                     ([Log ''No upgrade needed. Use --force to force upgrade.''], Returned)
                   else if truthy_bool (dryRun options) then
                     ([Log ''DRY RUN completed - upgrade analysis shown above''], Returned)
                   else
                     after [Log ''Starting diamond upgrade...''] (
                     call w DeployDiamond label v (
                     after [Log ''Diamond upgrade completed successfully''] (
                     step w PrintUpgradeSummary label v (
                     call w GetConfig label v ([], Returned)))))))))))))))"

definition verifyDeployment :: "'a VerifyOptions_scheme \<Rightarrow> env \<Rightarrow> world \<Rightarrow> run" where
  "verifyDeployment options env w =
     (case validateOptions_rpc options env of
        Some r \<Rightarrow> r
      | None \<Rightarrow>
        (let (evs, config) = createConfig_rpc (legacy_config_verify options env) options w;
             label = ''Verification failed:''; v = verbose options in
         after evs (
         call w GetInstance label v (
         call w IsDiamondDeployed label v (
           if \<not> diamondDeployed w then
             ([Error ''Diamond is not deployed yet. Use deploy-rpc.ts first.''], Exited 1)
           else
             after [Provider (cfg_rpcUrl config)] (
             call w ValidateConfiguration label v (
             after (if configValid w then [Log ''Configuration is valid'']
                    else Log ''Configuration validation failed:''
                           # map (\<lambda>e. Error (''  - '' @ e)) (configErrors w)) (
             call w GetNetworkInfo label v (
             when_do (truthy_bool (validateAbi options)
                      \<or> \<not> truthy_bool (verifyContracts options)
                        \<and> \<not> truthy_bool (validateSelectors options)
                        \<and> \<not> truthy_bool (compareOnChain options))
               (step w ValidateABIs label v) (
             when_do (truthy_bool (validateSelectors options)
                      \<or> \<not> truthy_bool (verifyContracts options)
                        \<and> \<not> truthy_bool (validateAbi options)
                        \<and> \<not> truthy_bool (compareOnChain options))
               (step w ValidateSelectors label v) (
             when_do (truthy_bool (compareOnChain options)
                      \<or> \<not> truthy_bool (verifyContracts options)
                        \<and> \<not> truthy_bool (validateAbi options)
                        \<and> \<not> truthy_bool (validateSelectors options))
               (step w CompareOnChainState label v) (
             when_do (truthy_bool (verifyContracts options))
               (after [Step ShowContractVerificationInfo])
               ([Log ''Verification completed successfully!''], Returned)))))))))))))"

section \<open>status-rpc.ts\<close>

definition validation_errors_status :: "'a StatusOptions_scheme \<Rightarrow> string list" where
  "validation_errors_status options =
     (let errors = [];
          errors = (if \<not> truthy_str (diamondName options)
                    then errors @ [''Diamond name is required (--diamond-name or DIAMOND_NAME)'']
                    else errors);
          errors = (if \<not> truthy_str (rpcUrl options)
                    then errors @ [''RPC URL is required (--rpc-url or RPC_URL)'']
                    else errors);
          errors = (if \<not> truthy_str (privateKey options)
                    then errors @ [''Private key is required (--private-key or PRIVATE_KEY)'']
                    else errors)
      in errors)"

definition validateOptions_status :: "'a StatusOptions_scheme \<Rightarrow> run option" where
  "validateOptions_status options =
     (let errors = validation_errors_status options
      in if length errors > 0 then Some (exit_report errors) else None)"

definition createConfig_status :: "'a StatusOptions_scheme \<Rightarrow> RPCDiamondDeployerConfig" where
  "createConfig_status options =
     \<lparr> cfg_diamondName = diamondName options,
       cfg_rpcUrl = rpcUrl options,
       cfg_privateKey = privateKey options,
       cfg_networkName = or_str (networkName options) (Some ''unknown''),
       cfg_chainId = 0,
       cfg_verbose = Some (truthy_bool (verbose options)),
       cfg_gasLimitMultiplier = None,
       cfg_maxRetries = None,
       cfg_retryDelayMs = None,
       cfg_configFilePath = configPath options,
       cfg_deploymentsPath = deploymentsPath options,
       cfg_writeDeployedDiamondData = True \<rparr>"

definition shown_settings :: "RPCDiamondDeployerConfig \<Rightarrow> event list" where
  \<comment> \<open>the three lines of \<open>showConfiguration\<close> that print the effective retry settings\<close>
  "shown_settings config =
     [LogNum ''Gas Limit Multiplier'' (or_num (cfg_gasLimitMultiplier config) (Num 1.2)),
      LogNum ''Max Retries'' (or_num (cfg_maxRetries config) (Num 3)),
      LogNum ''Retry Delay'' (or_num (cfg_retryDelayMs config) (Num 2000))]"

definition showConfiguration :: "world \<Rightarrow> string \<Rightarrow> bool option \<Rightarrow> run \<Rightarrow> run" where
  "showConfiguration w label verb k =
     after [Step ShowConfiguration] (
     call w GetConfig label verb (
     call w GetNetworkInfo label verb (
     call w GetDiamond label verb (
     after ((if truthy_int (deployConfigVersion w)
             then [LogVersion (the (deployConfigVersion w))] else [])
            @ shown_settings (deployerConfig w)) k))))"

definition checkStatus :: "'a StatusOptions_scheme \<Rightarrow> world \<Rightarrow> run" where
  "checkStatus options w =
     (case validateOptions_status options of
        Some r \<Rightarrow> r
      | None \<Rightarrow>
        (let config = createConfig_status options;
             label = ''Status check failed:''; v = verbose options;
             isDiamondDeployed = diamondDeployed w in
         call w GetInstance label v (
         call w GetDeploymentStatus label v (
         call w IsDiamondDeployed label v (
         when_do isDiamondDeployed
           (\<lambda>k. call w GetDiamond label v (after (report_deployed w) k)) (
         when_do isDiamondDeployed (call w GetNetworkInfo label v) (
         call w ValidateConfiguration label v (
         after (if configValid w then [Log ''Configuration is valid'']
                else Log ''Configuration validation failed:''
                       # map (\<lambda>e. Error (''  - '' @ e)) (configErrors w)) (
         when_do (truthy_bool (showConfig options)) (showConfiguration w label v) (
         when_do (truthy_bool (showFacets options) \<and> isDiamondDeployed)
           (step w ShowFacetsDetails label v) (
         when_do (truthy_bool (showSelectors options) \<and> isDiamondDeployed)
           (step w ShowSelectorsRegistry label v) (
         when_do (truthy_bool (onChainValidation options) \<and> isDiamondDeployed)
           (\<lambda>k. step w ValidateOnChain label v
                  (after (if truthy_str (DiamondAddress (deployedData w))
                          then [Provider (cfg_rpcUrl config)] else []) k))
           ([Log ''Status check completed''], Returned)))))))))))))"

section \<open>The command-line options of the deploy and upgrade commands\<close>

text \<open>
  \<open>program.command(...).option(flags, description, parseArg, defaultValue)\<close>: the option
  has the default value unless the flag is given, and then \<open>parseArg\<close> of its argument.
  The record holds what the command line gave: the two positional arguments and the
  argument of each flag (\<open>None\<close> when the flag is absent).
\<close>

record command_line =
  arg_diamondName :: "string option"
  arg_networkName :: "string option"
  flag_privateKey :: "string option"
  flag_rpcUrl :: "string option"
  flag_gasLimitMultiplier :: "string option"
  flag_maxRetries :: "string option"
  flag_retryDelayMs :: "string option"
  flag_noHardhatConfig :: bool
  flag_dryRun :: bool
  flag_force :: bool
  flag_verbose :: bool

definition env_or :: "env \<Rightarrow> string \<Rightarrow> string \<Rightarrow> string" where
  \<comment> \<open>\<open>process.env.NAME || 'literal'\<close>\<close>
  "env_or env name lit = (case env name of None \<Rightarrow> lit | Some v \<Rightarrow> if v = [] then lit else v)"

definition option_value :: "string option \<Rightarrow> (string \<Rightarrow> 'a) \<Rightarrow> 'a \<Rightarrow> 'a" where
  "option_value flag parseArg defaultValue =
     (case flag of None \<Rightarrow> defaultValue | Some val \<Rightarrow> parseArg val)"

definition opt_gasLimitMultiplier :: "command_line \<Rightarrow> env \<Rightarrow> number" where
  "opt_gasLimitMultiplier cl env =
     option_value (flag_gasLimitMultiplier cl) parseFloat
       (parseFloat (env_or env ''GAS_LIMIT_MULTIPLIER'' ''1.2''))"

definition opt_maxRetries :: "command_line \<Rightarrow> env \<Rightarrow> number" where
  "opt_maxRetries cl env =
     option_value (flag_maxRetries cl) parseInt (parseInt (env_or env ''MAX_RETRIES'' ''3''))"

definition opt_retryDelayMs :: "command_line \<Rightarrow> env \<Rightarrow> number" where
  "opt_retryDelayMs cl env =
     option_value (flag_retryDelayMs cl) parseInt
       (parseInt (env_or env ''RETRY_DELAY_MS'' ''2000''))"

definition opt_string :: "string option \<Rightarrow> string option \<Rightarrow> string option" where
  \<comment> \<open>a string option with a default and no \<open>parseArg\<close>\<close>
  "opt_string flag defaultValue = (case flag of None \<Rightarrow> defaultValue | Some val \<Rightarrow> Some val)"

definition deploy_command :: "command_line \<Rightarrow> env \<Rightarrow> DeploymentOptions" where
  \<comment> \<open>the \<open>deployOptions\<close> that the action of \<open>deploy [diamondName] [networkName]\<close> builds\<close>
  "deploy_command cl env =
     \<lparr> diamondName = or_str (or_str (arg_diamondName cl) (env ''DIAMOND_NAME'')) (Some []),
       networkName = or_str (or_str (arg_networkName cl) (env ''NETWORK_NAME'')) (Some []),
       rpcUrl = opt_string (flag_rpcUrl cl) (env ''RPC_URL''),
       privateKey = opt_string (flag_privateKey cl) (env ''PRIVATE_KEY''),
       verbose = Some (flag_verbose cl \<or> env ''VERBOSE'' = Some ''true''),
       configPath = None,
       deploymentsPath = None,
       useHardhatConfig = Some (\<not> flag_noHardhatConfig cl),
       gasLimitMultiplier = Some (opt_gasLimitMultiplier cl env),
       maxRetries = Some (opt_maxRetries cl env),
       retryDelayMs = Some (opt_retryDelayMs cl env) \<rparr>"

definition upgrade_command :: "command_line \<Rightarrow> env \<Rightarrow> UpgradeOptions" where
  \<comment> \<open>the \<open>upgradeOptions\<close> that the action of \<open>upgrade [diamondName] [networkName]\<close> builds\<close>
  "upgrade_command cl env =
     \<lparr> diamondName = or_str (or_str (arg_diamondName cl) (env ''DIAMOND_NAME'')) (Some []),
       networkName = or_str (or_str (arg_networkName cl) (env ''NETWORK_NAME'')) (Some []),
       rpcUrl = opt_string (flag_rpcUrl cl) (env ''RPC_URL''),
       privateKey = opt_string (flag_privateKey cl) (env ''PRIVATE_KEY''),
       verbose = Some (flag_verbose cl \<or> env ''VERBOSE'' = Some ''true''),
       configPath = None,
       deploymentsPath = None,
       useHardhatConfig = Some (\<not> flag_noHardhatConfig cl),
       gasLimitMultiplier = Some (opt_gasLimitMultiplier cl env),
       maxRetries = Some (opt_maxRetries cl env),
       retryDelayMs = Some (opt_retryDelayMs cl env),
       targetVersion = None,
       force = (if flag_force cl then Some True else None),
       dryRun = (if flag_dryRun cl then Some True else None) \<rparr>"

section \<open>verify-diamond.ts\<close>

text \<open>
  \<open>networkDeployInfo.FacetDeployedInfo\<close> is an object from facet names to records; it
  is an association list in the order \<open>for ... in\<close> visits the keys. \<open>hre.run\<close> and
  \<open>ethers.getContractAt\<close> are outside calls that may throw; the function mutates the
  records in place, so what was already written stays written when a later call throws.
\<close>

record FacetInfo =
  address :: "string option"
  verified :: "bool option"

record INetworkDeployInfo =
  NetDiamondAddress :: "string option"
  NetDeployerAddress :: "string option"
  FacetDeployedInfo :: "(string \<times> FacetInfo) list"

datatype verify_call =
    VerifyDiamond "string option" "string option" "string option"
  | GetContractAt string "string option"
  | VerifyFacet "string option"

datatype verify_error = TypeError | CallFailed verify_call

fun verify_facets ::
  "(verify_call \<Rightarrow> bool) \<Rightarrow> string option \<Rightarrow> (string \<times> FacetInfo) list
     \<Rightarrow> (string \<times> FacetInfo) list \<times> verify_call list \<times> verify_error option" where
  "verify_facets fails diamond [] = ([], [], None)"
| "verify_facets fails diamond ((facetName, facetContractInfo) # rest) =
     (if \<not> truthy_bool (verified facetContractInfo) then
        (let facetAddress = address facetContractInfo;
             c1 = GetContractAt facetName diamond;
             c2 = VerifyFacet facetAddress
         in if fails c1 then ((facetName, facetContractInfo) # rest, [c1], Some (CallFailed c1))
            else if fails c2 then
              ((facetName, facetContractInfo) # rest, [c1, c2], Some (CallFailed c2))
            else
              (case verify_facets fails diamond rest of
                 (rest', calls, err) \<Rightarrow>
                   ((facetName, facetContractInfo\<lparr>verified := Some True\<rparr>) # rest',
                    c1 # c2 # calls, err)))
      else
        (case verify_facets fails diamond rest of
           (rest', calls, err) \<Rightarrow> ((facetName, facetContractInfo) # rest', calls, err)))"

definition VerifyContracts ::
  "(verify_call \<Rightarrow> bool) \<Rightarrow> INetworkDeployInfo
     \<Rightarrow> INetworkDeployInfo \<times> verify_call list \<times> verify_error option" where
  \<comment> \<open>the record after the call, the outside calls made, and the error thrown if any\<close>
  "VerifyContracts fails networkDeployInfo =
     (let facets = FacetDeployedInfo networkDeployInfo;
          cut = map_of facets ''DiamondCutFacet'';
          loop = (\<lambda>pre. case verify_facets fails (NetDiamondAddress networkDeployInfo) facets of
                    (facets', calls, err) \<Rightarrow>
                      (networkDeployInfo\<lparr>FacetDeployedInfo := facets'\<rparr>, pre @ calls, err))
      in if \<not> truthy_bool (case cut of None \<Rightarrow> None | Some f \<Rightarrow> verified f) then
           (case cut of
              None \<Rightarrow> (networkDeployInfo, [], Some TypeError)
            | Some f \<Rightarrow>
                (let c = VerifyDiamond (NetDiamondAddress networkDeployInfo)
                           (NetDeployerAddress networkDeployInfo) (address f)
                 in if fails c then (networkDeployInfo, [c], Some (CallFailed c))
                    else loop [c]))
         else loop [])"

section \<open>Concrete runs\<close>

text \<open>
  Inputs at which the theorems below are instantiated: a configuration as the hardhat
  integration would return it, a world in which no outside call throws and the diamond is
  deployed at protocol version 1 with a target configuration at version 2, and option
  records for each script.
\<close>

definition example_config :: RPCDiamondDeployerConfig where
  "example_config =
     \<lparr> cfg_diamondName = Some ''ExampleDiamond'',
       cfg_rpcUrl = Some ''http://localhost:8545'',
       cfg_privateKey = Some ''0xkey'',
       cfg_networkName = Some ''sepolia'',
       cfg_chainId = 11155111,
       cfg_verbose = Some False,
       cfg_gasLimitMultiplier = None,
       cfg_maxRetries = None,
       cfg_retryDelayMs = None,
       cfg_configFilePath = None,
       cfg_deploymentsPath = None,
       cfg_writeDeployedDiamondData = True \<rparr>"

definition calm_world :: world where
  "calm_world =
     \<lparr> throws = (\<lambda>c. None),
       hardhatConfig = example_config,
       diamondDeployed = True,
       configValid = True,
       configErrors = [],
       deployedData = \<lparr> DiamondAddress = Some ''0xB44476E2aFBe1D10F6FE9ca11B23e200033c56f7'',
                        protocolVersion = Some 1 \<rparr>,
       deployConfigVersion = Some 2,
       deployerConfig = example_config \<rparr>"

definition no_env :: env where
  "no_env = (\<lambda>name. None)"

definition example_deploy :: DeploymentOptions where
  "example_deploy =
     \<lparr> diamondName = Some ''ExampleDiamond'', networkName = Some ''sepolia'', rpcUrl = None,
       privateKey = Some ''0xkey'', verbose = None, configPath = None, deploymentsPath = None,
       useHardhatConfig = Some True,
       gasLimitMultiplier = Some (Num 1.2), maxRetries = Some (Num 3),
       retryDelayMs = Some (Num 2000) \<rparr>"

definition example_upgrade :: "bool option \<Rightarrow> bool option \<Rightarrow> UpgradeOptions" where
  \<comment> \<open>upgrade options with the given \<open>force\<close> and \<open>dryRun\<close>\<close>
  "example_upgrade f d =
     \<lparr> diamondName = Some ''ExampleDiamond'', networkName = Some ''sepolia'', rpcUrl = None,
       privateKey = Some ''0xkey'', verbose = None, configPath = None, deploymentsPath = None,
       useHardhatConfig = Some True,
       gasLimitMultiplier = Some (Num 1.2), maxRetries = Some (Num 3),
       retryDelayMs = Some (Num 2000),
       targetVersion = None, force = f, dryRun = d \<rparr>"

definition example_verify :: "bool option \<Rightarrow> VerifyOptions" where
  \<comment> \<open>verify options with the given \<open>verifyContracts\<close> and no other flag\<close>
  "example_verify vc =
     \<lparr> diamondName = Some ''ExampleDiamond'', networkName = Some ''sepolia'', rpcUrl = None,
       privateKey = Some ''0xkey'', verbose = None, configPath = None, deploymentsPath = None,
       useHardhatConfig = Some True,
       etherscanApiKey = None, blockExplorerUrl = None, verifyContracts = vc,
       validateAbi = None, validateSelectors = None, compareOnChain = None \<rparr>"

definition empty_status :: StatusOptions where
  \<comment> \<open>status options with nothing supplied\<close>
  "empty_status =
     \<lparr> diamondName = None, networkName = None, rpcUrl = None, privateKey = None,
       verbose = None, configPath = None, deploymentsPath = None,
       onChainValidation = None, showConfig = None, showFacets = None, showSelectors = None \<rparr>"

definition empty_deploy :: DeploymentOptions where
  \<comment> \<open>the legacy deploy command with nothing supplied: hardhat integration is forced off\<close>
  "empty_deploy =
     \<lparr> diamondName = None, networkName = None, rpcUrl = None, privateKey = None,
       verbose = None, configPath = None, deploymentsPath = None,
       useHardhatConfig = Some False,
       gasLimitMultiplier = None, maxRetries = None, retryDelayMs = None \<rparr>"

definition empty_upgrade :: UpgradeOptions where
  "empty_upgrade =
     \<lparr> diamondName = None, networkName = None, rpcUrl = None, privateKey = None,
       verbose = None, configPath = None, deploymentsPath = None,
       useHardhatConfig = Some False,
       gasLimitMultiplier = None, maxRetries = None, retryDelayMs = None,
       targetVersion = None, force = None, dryRun = None \<rparr>"

definition bare_command_line :: command_line where
  \<comment> \<open>only the two positional arguments are given\<close>
  "bare_command_line =
     \<lparr> arg_diamondName = Some ''ExampleDiamond'', arg_networkName = Some ''sepolia'',
       flag_privateKey = None, flag_rpcUrl = None, flag_gasLimitMultiplier = None,
       flag_maxRetries = None, flag_retryDelayMs = None, flag_noHardhatConfig = False,
       flag_dryRun = False, flag_force = False, flag_verbose = False \<rparr>"

definition example_network :: INetworkDeployInfo where
  "example_network =
     \<lparr> NetDiamondAddress = Some ''0xB44476E2aFBe1D10F6FE9ca11B23e200033c56f7'',
       NetDeployerAddress = Some ''0xdeployer'',
       FacetDeployedInfo =
         [(''DiamondCutFacet'', \<lparr> address = Some ''0xc1'', verified = Some True \<rparr>),
          (''DiamondLoupeFacet'', \<lparr> address = Some ''0xc2'', verified = Some False \<rparr>),
          (''OwnershipFacet'', \<lparr> address = Some ''0xc3'', verified = None \<rparr>)] \<rparr>"

definition empty_verify :: VerifyOptions where
  "empty_verify =
     \<lparr> diamondName = None, networkName = None, rpcUrl = None, privateKey = None,
       verbose = None, configPath = None, deploymentsPath = None,
       useHardhatConfig = Some False,
       etherscanApiKey = None, blockExplorerUrl = None, verifyContracts = None,
       validateAbi = None, validateSelectors = None, compareOnChain = None \<rparr>"

definition no_hardhat_world :: world where
  \<comment> \<open>as \<open>calm_world\<close>, but loading the hardhat configuration throws\<close>
  "no_hardhat_world =
     calm_world \<lparr> throws := (\<lambda>c. if c = CreateConfigFromHardhat
                                   then Some ''Network not found in hardhat config'' else None) \<rparr>"

definition example_status :: StatusOptions where
  \<comment> \<open>a valid status request with \<open>--show-config\<close>\<close>
  "example_status =
     \<lparr> diamondName = Some ''ExampleDiamond'', networkName = Some ''sepolia'',
       rpcUrl = Some ''http://localhost:8545'', privateKey = Some ''0xkey'',
       verbose = None, configPath = None, deploymentsPath = None,
       onChainValidation = None, showConfig = Some True, showFacets = None,
       showSelectors = None \<rparr>"

section \<open>The core behind the deployer: resilience layer, registry, reconciler\<close>

text \<open>
  The scripts call \<open>RPCDiamondDeployer\<close> (\<open>../../setup/RPCDiamondDeployer\<close>), whose code
  is not among the source files: only its callers are. The three components below are
  therefore written from the specification's description of them.
\<close>

subsection \<open>RPC Resilience Layer\<close>

datatype failure =
    NonceRace | RpcTimeout | UnderpricedGas
  | InsufficientBalance | ExecutionReverted | MalformedCallData

fun retriable :: "failure \<Rightarrow> bool" where
  "retriable NonceRace = True"
| "retriable RpcTimeout = True"
| "retriable UnderpricedGas = True"
| "retriable InsufficientBalance = False"
| "retriable ExecutionReverted = False"
| "retriable MalformedCallData = False"

text \<open>
  A \<open>TransactionError\<close> says whether it is retriable and carries the failure of the last
  attempt (none when no attempt was made). The underlying call is a function from the
  number of the attempt (from 0) to its answer.
\<close>

datatype TransactionError = TransactionError (is_retriable: bool) (cause: "failure option")

record 'a call_result =
  attempts :: nat
  waited_ms :: nat
  outcome_of :: "TransactionError + 'a"

text \<open>
  Modelled from the spec: the retry wrapper of the RPC Resilience Layer (component design,
  "RPC Resilience Layer"), which is not in the source files. A call is attempted at most
  \<open>maxRetries\<close> times (\<open>retries\<close>) with the fixed delay \<open>retryDelayMs\<close> (\<open>delayMs\<close>) between two
  attempts; a
  retriable failure (nonce race, RPC timeout, underpriced gas) is retried, a fatal one
  (insufficient balance, reverted execution, malformed call data) propagates at once, and
  when the attempts are used up the call fails with a retriable \<open>TransactionError\<close>.
\<close>

fun retry_loop ::
  "nat \<Rightarrow> (nat \<Rightarrow> failure + 'a) \<Rightarrow> nat \<Rightarrow> nat \<Rightarrow> nat \<Rightarrow> failure option \<Rightarrow> 'a call_result" where
  \<comment> \<open>Modelled from the spec: the retry loop of the RPC Resilience Layer, absent from the source files\<close>
  "retry_loop delayMs rpc 0 attempt waited lastFailure =
     \<lparr> attempts = attempt, waited_ms = waited,
       outcome_of = Inl (TransactionError True lastFailure) \<rparr>"
| "retry_loop delayMs rpc (Suc remaining) attempt waited lastFailure =
     (case rpc attempt of
        Inr v \<Rightarrow> \<lparr> attempts = Suc attempt, waited_ms = waited, outcome_of = Inr v \<rparr>
      | Inl f \<Rightarrow>
          if retriable f then
            retry_loop delayMs rpc remaining (Suc attempt)
              (if remaining = 0 then waited else waited + delayMs) (Some f)
          else \<lparr> attempts = Suc attempt, waited_ms = waited,
                 outcome_of = Inl (TransactionError False (Some f)) \<rparr>)"

definition withRetry :: "nat \<Rightarrow> nat \<Rightarrow> (nat \<Rightarrow> failure + 'a) \<Rightarrow> 'a call_result" where
  \<comment> \<open>Modelled from the spec: the retry wrapper of the RPC Resilience Layer, absent from the source files\<close>
  "withRetry retries delayMs rpc = retry_loop delayMs rpc retries 0 0 None"

subsection \<open>Selector Registry\<close>

type_synonym selector = "32 word"
type_synonym address = "160 word"

datatype action = Add | Replace | Remove | NoAction

record FacetRecord =
  name :: string
  facet_address :: address
  facet_selectors :: "selector list"
  facet_priority :: int

record RegistryEntry =
  selector :: selector
  facetName :: string
  priority :: int
  action :: action

text \<open>
  The registry holds at most one entry per selector; it is an association list in the
  order in which the selectors were first registered.
\<close>

type_synonym registry = "(selector \<times> RegistryEntry) list"

text \<open>
  Modelled from the spec: \<open>register\<close>, \<open>resolve\<close> and \<open>entriesForFacet\<close> of the Selector
  Registry (component design, "Selector Registry", and the invariant of \<open>RegistryEntry\<close>
  in the data model), which are not in the source files. \<open>register\<close> inserts an entry, or
  overwrites the present one unless that one has a strictly higher priority: the higher
  priority wins, and on a tie the most recently registered facet wins. A higher priority
  is a greater integer (in the spec's scenario priority 2 wins over priority 1).
\<close>

definition register :: "selector \<Rightarrow> string \<Rightarrow> int \<Rightarrow> registry \<Rightarrow> registry" where
  \<comment> \<open>Modelled from the spec: register of the Selector Registry, absent from the source files\<close>
  "register s n p reg =
     (if (case map_of reg s of None \<Rightarrow> True | Some e \<Rightarrow> priority e \<le> p)
      then AList.update s \<lparr> selector = s, facetName = n, priority = p, action = NoAction \<rparr> reg
      else reg)"

definition resolve :: "registry \<Rightarrow> selector \<Rightarrow> string option" where
  \<comment> \<open>Modelled from the spec: resolve of the Selector Registry, absent from the source files\<close>
  "resolve reg s = map_option facetName (map_of reg s)"

definition entriesForFacet :: "registry \<Rightarrow> string \<Rightarrow> selector set" where
  \<comment> \<open>Modelled from the spec: entriesForFacet of the Selector Registry, absent from the source files\<close>
  "entriesForFacet reg n = {s. resolve reg s = Some n}"

text \<open>
  Modelled from the spec: step 1 of the Facet Reconciler, "build the Registry from the
  target configuration": the facets are registered in the order of the target
  configuration, each with its selectors in their order, starting from an empty registry.
\<close>

definition register_facet :: "registry \<Rightarrow> FacetRecord \<Rightarrow> registry" where
  \<comment> \<open>Modelled from the spec: step 1 of the Facet Reconciler for one facet, absent from the source files\<close>
  "register_facet reg f =
     foldl (\<lambda>r s. register s (name f) (facet_priority f) r) reg (facet_selectors f)"

definition build_registry :: "FacetRecord list \<Rightarrow> registry" where
  \<comment> \<open>Modelled from the spec: step 1 of the Facet Reconciler, absent from the source files\<close>
  "build_registry target = foldl register_facet [] target"

subsection \<open>Facet Reconciler\<close>

record CutOperation =
  cut_action :: action
  facetAddress :: address
  selectors :: "selector list"

text \<open>
  The on-chain facet state is the loupe's selector-to-facet-address view, an association
  list. A change is one selector's part of a cut operation.
\<close>

type_synonym chain = "(selector \<times> address) list"
type_synonym change = "action \<times> address \<times> selector"

definition facet_address_of :: "FacetRecord list \<Rightarrow> string \<Rightarrow> address option" where
  \<comment> \<open>Modelled from the spec: the resolved facet address of step 2 of the Facet Reconciler, absent from the source files\<close>
  "facet_address_of target n = map_option facet_address (find (\<lambda>f. name f = n) target)"

text \<open>
  Modelled from the spec: steps 2 to 5 of the Facet Reconciler (component design, "Facet
  Reconciler"), which is not in the source files. Step 2: a registry selector absent
  on-chain is an \<open>Add\<close>, one owned by another address a \<open>Replace\<close>, one owned by its
  resolved facet's address no change. Step 3: a selector on-chain but not in the registry
  is a \<open>Remove\<close> (with the zero address, as in EIP-2535). Step 5: the selectors owned
  on-chain by the cut-management facet are never removed for being absent from the
  target. Step 4: consecutive changes with the same action and facet address are grouped
  into one \<open>CutOperation\<close>, and the groups are sorted \<open>Add\<close>, \<open>Replace\<close>, \<open>Remove\<close>.
\<close>

definition pending_action :: "FacetRecord list \<Rightarrow> chain \<Rightarrow> RegistryEntry \<Rightarrow> action" where
  \<comment> \<open>Modelled from the spec: step 2 of the Facet Reconciler, absent from the source files\<close>
  "pending_action target onchain e =
     (case facet_address_of target (facetName e) of
        None \<Rightarrow> NoAction
      | Some a \<Rightarrow>
          (case map_of onchain (selector e) of
             None \<Rightarrow> Add
           | Some owner \<Rightarrow> if owner = a then NoAction else Replace))"

definition mark_actions :: "FacetRecord list \<Rightarrow> chain \<Rightarrow> registry \<Rightarrow> registry" where
  \<comment> \<open>Modelled from the spec: step 2 of the Facet Reconciler over the registry, absent from the source files\<close>
  "mark_actions target onchain reg =
     map (\<lambda>(s, e). (s, e\<lparr>action := pending_action target onchain e\<rparr>)) reg"

definition entry_change :: "FacetRecord list \<Rightarrow> selector \<times> RegistryEntry \<Rightarrow> change list" where
  \<comment> \<open>Modelled from the spec: the change a registry entry drives (step 2), absent from the source files\<close>
  "entry_change target se =
     (case facet_address_of target (facetName (snd se)) of
        None \<Rightarrow> []
      | Some a \<Rightarrow> if action (snd se) = NoAction then [] else [(action (snd se), a, fst se)])"

definition orphan_change :: "address \<Rightarrow> registry \<Rightarrow> selector \<times> address \<Rightarrow> change list" where
  \<comment> \<open>Modelled from the spec: steps 3 and 5 of the Facet Reconciler, absent from the source files\<close>
  "orphan_change cutFacet reg so =
     (if map_of reg (fst so) = None \<and> snd so \<noteq> cutFacet then [(Remove, 0, fst so)] else [])"

fun group_changes :: "change list \<Rightarrow> CutOperation list" where
  \<comment> \<open>Modelled from the spec: the grouping of step 4 of the Facet Reconciler, absent from the source files\<close>
  "group_changes [] = []"
| "group_changes ((act, a, s) # rest) =
     (case group_changes rest of
        [] \<Rightarrow> [\<lparr> cut_action = act, facetAddress = a, selectors = [s] \<rparr>]
      | g # gs \<Rightarrow>
          if cut_action g = act \<and> facetAddress g = a
          then g\<lparr>selectors := s # selectors g\<rparr> # gs
          else \<lparr> cut_action = act, facetAddress = a, selectors = [s] \<rparr> # g # gs)"

fun action_rank :: "action \<Rightarrow> nat" where
  \<comment> \<open>Modelled from the spec: the order Add, Replace, Remove of step 4, absent from the source files\<close>
  "action_rank Add = 0"
| "action_rank Replace = 1"
| "action_rank Remove = 2"
| "action_rank NoAction = 3"

definition changes :: "address \<Rightarrow> FacetRecord list \<Rightarrow> chain \<Rightarrow> change list" where
  \<comment> \<open>Modelled from the spec: steps 1 to 3 and 5 of the Facet Reconciler, absent from the source files\<close>
  "changes cutFacet target onchain =
     (let reg = mark_actions target onchain (build_registry target)
      in concat (map (entry_change target) reg) @ concat (map (orphan_change cutFacet reg) onchain))"

definition reconcile :: "address \<Rightarrow> FacetRecord list \<Rightarrow> chain \<Rightarrow> CutOperation list" where
  \<comment> \<open>Modelled from the spec: the Facet Reconciler, absent from the source files\<close>
  "reconcile cutFacet target onchain =
     sort_key (\<lambda>g. action_rank (cut_action g)) (group_changes (changes cutFacet target onchain))"

text \<open>
  Modelled from the spec: the simulated application of cut operations of the testable
  properties ("applying the computed CutOperations (simulated)"): \<open>Add\<close> and \<open>Replace\<close>
  route the selector to the operation's facet address, \<open>Remove\<close> drops the selector.
\<close>

definition apply_change :: "change \<Rightarrow> chain \<Rightarrow> chain" where
  \<comment> \<open>Modelled from the spec: the simulated application of one change, absent from the source files\<close>
  "apply_change c onchain =
     (case c of (act, a, s) \<Rightarrow>
        (case act of
           Add \<Rightarrow> AList.update s a onchain
         | Replace \<Rightarrow> AList.update s a onchain
         | Remove \<Rightarrow> AList.delete s onchain
         | NoAction \<Rightarrow> onchain))"

definition apply_cut :: "CutOperation \<Rightarrow> chain \<Rightarrow> chain" where
  \<comment> \<open>Modelled from the spec: the simulated application of one CutOperation, absent from the source files\<close>
  "apply_cut g onchain =
     fold (\<lambda>s. apply_change (cut_action g, facetAddress g, s)) (selectors g) onchain"

definition apply_cuts :: "CutOperation list \<Rightarrow> chain \<Rightarrow> chain" where
  \<comment> \<open>Modelled from the spec: the simulated application of CutOperations, absent from the source files\<close>
  "apply_cuts ops onchain = fold apply_cut ops onchain"

subsection \<open>The scenarios of the specification\<close>

definition FacetA :: FacetRecord where
  "FacetA = \<lparr> name = ''FacetA'', facet_address = 0xA, facet_selectors = [0x11, 0x22],
              facet_priority = 1 \<rparr>"

definition FacetB :: FacetRecord where
  "FacetB = \<lparr> name = ''FacetB'', facet_address = 0xB, facet_selectors = [0x22, 0x33],
              facet_priority = 2 \<rparr>"

definition timing_out :: "nat \<Rightarrow> failure + unit" where
  \<comment> \<open>an RPC call that times out at every attempt\<close>
  "timing_out n = Inl RpcTimeout"

definition reverting_third :: "nat \<Rightarrow> failure + unit" where
  \<comment> \<open>an RPC call that times out twice and is reverted at the third attempt\<close>
  "reverting_third n = (if n < 2 then Inl RpcTimeout else Inl ExecutionReverted)"

definition FacetC :: FacetRecord where
  \<comment> \<open>a facet that claims \<open>0x11\<close> at the priority of \<open>FacetA\<close>\<close>
  "FacetC = \<lparr> name = ''FacetC'', facet_address = 0xC, facet_selectors = [0x11],
              facet_priority = 1 \<rparr>"

subsection \<open>Auxiliary notions for the reconciler\<close>

definition entry_diff :: "FacetRecord list \<Rightarrow> chain \<Rightarrow> selector \<times> RegistryEntry \<Rightarrow> change list" where
  \<comment> \<open>the change of one registry entry: its action is computed, then read\<close>
  "entry_diff target onchain se =
     entry_change target (fst se, (snd se)\<lparr>action := pending_action target onchain (snd se)\<rparr>)"

definition routed :: "change \<Rightarrow> address option" where
  \<comment> \<open>the owner of the change's selector once the change is applied\<close>
  "routed c = (case fst c of Remove \<Rightarrow> None | _ \<Rightarrow> Some (fst (snd c)))"

definition atoms :: "CutOperation list \<Rightarrow> change list" where
  \<comment> \<open>the changes, selector by selector, that a list of cut operations stands for\<close>
  "atoms ops = concat (map (\<lambda>g. map (\<lambda>s. (cut_action g, facetAddress g, s)) (selectors g)) ops)"

definition registry_ok :: "registry \<Rightarrow> bool" where
  \<comment> \<open>the invariant of the registry: one entry per selector, filed under its selector\<close>
  "registry_ok reg = (distinct (map fst reg) \<and> list_all (\<lambda>se. selector (snd se) = fst se) reg)"

definition version_zero_world :: world where
  \<comment> \<open>as \<open>calm_world\<close>, with the diamond deployed at protocol version 0\<close>
  "version_zero_world =
     calm_world \<lparr> deployedData :=
       \<lparr> DiamondAddress = Some ''0xB44476E2aFBe1D10F6FE9ca11B23e200033c56f7'',
         protocolVersion = Some 0 \<rparr> \<rparr>"

section \<open>Properties of the scripts\<close>

lemma fst_after: "fst (after evs r) = evs @ fst r"
  by (simp add: after_def)

lemma snd_after: "snd (after evs r) = snd r"
  by (simp add: after_def)

lemma in_after: "e \<in> set (fst (after evs r)) \<longleftrightarrow> e \<in> set evs \<or> e \<in> set (fst r)"
  by (simp add: after_def)

lemma Call_notin_failed: "Call x \<notin> set (fst (failed l v m))"
  by (simp add: failed_def)

lemma Call_in_call:
  "Call x \<in> set (fst (call w c l v k)) \<longleftrightarrow> x = c \<or> (throws w c = None \<and> Call x \<in> set (fst k))"
  by (cases "throws w c") (auto simp: call_def after_def failed_def)

lemma Call_in_step:
  "Call x \<in> set (fst (step w s l v k)) \<longleftrightarrow>
     x = GetDiamond \<or> (throws w GetDiamond = None \<and> Call x \<in> set (fst k))"
  by (simp add: step_def in_after Call_in_call)

lemma Call_in_printPreInfo:
  "Call x \<in> set (fst (printPreInfo config w k)) \<longleftrightarrow>
     x = NetworkQuery \<or> (throws w NetworkQuery = None \<and> Call x \<in> set (fst k))"
  by (cases "throws w NetworkQuery") (auto simp: printPreInfo_def after_def)

lemma Call_notin_validation_failed: "Call x \<notin> set (fst (validation_failed w))"
  by (auto simp: validation_failed_def)

lemma Call_in_createConfig_rpc:
  "Call x \<in> set (fst (createConfig_rpc legacy options w)) \<Longrightarrow> x = CreateConfigFromHardhat"
  by (auto simp: createConfig_rpc_def split: option.splits if_splits)

lemma Call_in_createConfig_deploy:
  "Call x \<in> set (fst (createConfig_deploy options env w)) \<Longrightarrow> x = CreateConfigFromHardhat"
  by (auto simp: createConfig_deploy_def split: option.splits if_splits)

lemma call_ok: "throws w c = None \<Longrightarrow> call w c l v k = after [Call c] k"
  by (simp add: call_def)

lemma step_ok: "throws w GetDiamond = None \<Longrightarrow> step w s l v k = after [Step s, Call GetDiamond] k"
  by (simp add: step_def call_def after_def)

lemma printPreInfo_ok:
  "throws w NetworkQuery = None \<Longrightarrow>
     printPreInfo config w k = after [Provider (cfg_rpcUrl config), Call NetworkQuery] k"
  by (simp add: printPreInfo_def)

lemma when_after: "when_do b (after evs) k = after (if b then evs else []) k"
  by (simp add: when_do_def after_def)

lemma validateOptions_rpc_ok:
  "validation_errors_rpc options env = [] \<Longrightarrow> validateOptions_rpc options env = None"
  by (simp add: validateOptions_rpc_def)

lemma needsUpgrade_iff:
  "needsUpgrade options w \<longleftrightarrow>
     truthy_bool (force options) \<or>
     (\<exists>d t. protocolVersion (deployedData w) = Some d \<and> deployConfigVersion w = Some t
            \<and> d \<noteq> 0 \<and> t \<noteq> 0 \<and> d < t)"
  by (auto simp: needsUpgrade_def split: option.splits)

lemma upgrade_only_if:
  assumes "Call DeployDiamond \<in> set (fst (upgradeDiamond options env w))"
  shows "\<not> truthy_bool (dryRun options) \<and> needsUpgrade options w"
proof -
  obtain evs config where c:
    "createConfig_rpc (legacy_config_upgrade options env) options w = (evs, config)"
    by (cases "createConfig_rpc (legacy_config_upgrade options env) options w")
  have n: "Call DeployDiamond \<notin> set evs"
    using Call_in_createConfig_rpc [of DeployDiamond "legacy_config_upgrade options env" options w] c
    by auto
  show ?thesis
  proof (cases "validateOptions_rpc options env")
    case (Some r)
    then show ?thesis
      using assms by (auto simp: upgradeDiamond_def validateOptions_rpc_def exit_report_def Let_def
          split: if_splits)
  next
    case None
    then show ?thesis
      using assms n
      by (auto simp: upgradeDiamond_def c Let_def in_after Call_in_call Call_in_step
          Call_in_printPreInfo when_after Call_notin_validation_failed needsUpgrade_def
          split: if_splits)
  qed
qed

lemma upgrade_at_decision:
  assumes "validation_errors_rpc options env = []"
      and "throws w NetworkQuery = None" "throws w GetInstance = None"
      and "throws w IsDiamondDeployed = None" "throws w ValidateConfiguration = None"
      and "throws w GetDiamond = None"
      and "diamondDeployed w" "configValid w"
  shows "(\<not> truthy_bool (dryRun options) \<and> needsUpgrade options w
            \<longrightarrow> Call DeployDiamond \<in> set (fst (upgradeDiamond options env w)))
       \<and> (\<not> (\<not> truthy_bool (dryRun options) \<and> needsUpgrade options w)
            \<longrightarrow> snd (upgradeDiamond options env w) = Returned)"
proof -
  obtain evs config where c:
    "createConfig_rpc (legacy_config_upgrade options env) options w = (evs, config)"
    by (cases "createConfig_rpc (legacy_config_upgrade options env) options w")
  show ?thesis
    unfolding upgradeDiamond_def
    by (auto simp: validateOptions_rpc_ok [OF assms(1)] c assms call_ok step_ok printPreInfo_ok
        when_after fst_after snd_after Let_def Call_in_call needsUpgrade_def)
qed


text \<open>
  C1 (amended). The upgrade is submitted only if the dry-run flag is not set and the force
  flag is set or both protocol versions are present with the deployed one strictly less
  than the target. When the run gets to the decision (options valid, network queried,
  deployer created, diamond deployed, configuration valid) and no present protocol
  version is zero, it is submitted exactly in that case, and in every other case the
  function returns without submitting.
\<close>

theorem upgrade_submits_iff:
  "(Call DeployDiamond \<in> set (fst (upgradeDiamond options env w)) \<longrightarrow>
      \<not> truthy_bool (dryRun options) \<and>
      (truthy_bool (force options) \<or>
       (\<exists>d t. protocolVersion (deployedData w) = Some d \<and> deployConfigVersion w = Some t \<and> d < t)))
   \<and> (validation_errors_rpc options env = [] \<and> throws w NetworkQuery = None
        \<and> throws w GetInstance = None \<and> throws w IsDiamondDeployed = None
        \<and> throws w ValidateConfiguration = None \<and> throws w GetDiamond = None
        \<and> diamondDeployed w \<and> configValid w
        \<and> protocolVersion (deployedData w) \<noteq> Some 0 \<and> deployConfigVersion w \<noteq> Some 0 \<longrightarrow>
      (Call DeployDiamond \<in> set (fst (upgradeDiamond options env w)) \<longleftrightarrow>
         \<not> truthy_bool (dryRun options) \<and>
         (truthy_bool (force options) \<or>
          (\<exists>d t. protocolVersion (deployedData w) = Some d \<and> deployConfigVersion w = Some t \<and> d < t)))
      \<and> (Call DeployDiamond \<notin> set (fst (upgradeDiamond options env w)) \<longrightarrow>
           snd (upgradeDiamond options env w) = Returned))"
proof (intro conjI impI)
  assume "Call DeployDiamond \<in> set (fst (upgradeDiamond options env w))"
  from upgrade_only_if [OF this]
  show "\<not> truthy_bool (dryRun options)"
    and "truthy_bool (force options) \<or>
       (\<exists>d t. protocolVersion (deployedData w) = Some d \<and> deployConfigVersion w = Some t \<and> d < t)"
    by (auto simp: needsUpgrade_iff)
next
  assume g: "validation_errors_rpc options env = [] \<and> throws w NetworkQuery = None
        \<and> throws w GetInstance = None \<and> throws w IsDiamondDeployed = None
        \<and> throws w ValidateConfiguration = None \<and> throws w GetDiamond = None
        \<and> diamondDeployed w \<and> configValid w
        \<and> protocolVersion (deployedData w) \<noteq> Some 0 \<and> deployConfigVersion w \<noteq> Some 0"
  then have d: "(\<not> truthy_bool (dryRun options) \<and> needsUpgrade options w
            \<longrightarrow> Call DeployDiamond \<in> set (fst (upgradeDiamond options env w)))
       \<and> (\<not> (\<not> truthy_bool (dryRun options) \<and> needsUpgrade options w)
            \<longrightarrow> snd (upgradeDiamond options env w) = Returned)"
    using upgrade_at_decision [of options env w] by blast
  have nz: "needsUpgrade options w \<longleftrightarrow>
      truthy_bool (force options) \<or>
       (\<exists>d t. protocolVersion (deployedData w) = Some d \<and> deployConfigVersion w = Some t \<and> d < t)"
    using g by (auto simp: needsUpgrade_iff)
  show "Call DeployDiamond \<in> set (fst (upgradeDiamond options env w)) \<longleftrightarrow>
         \<not> truthy_bool (dryRun options) \<and>
         (truthy_bool (force options) \<or>
          (\<exists>d t. protocolVersion (deployedData w) = Some d \<and> deployConfigVersion w = Some t \<and> d < t))"
    using d nz upgrade_only_if [of options env w] by blast
  show "snd (upgradeDiamond options env w) = Returned"
    if "Call DeployDiamond \<notin> set (fst (upgradeDiamond options env w))"
    using d that by blast
qed

lemmas example_defs = example_upgrade_def example_verify_def example_deploy_def no_env_def
  calm_world_def example_config_def truthy_str_def truthy_bool_def

theorem upgrade_submits_iff_witness:
  "validation_errors_rpc (example_upgrade None None) no_env = []
   \<and> throws calm_world NetworkQuery = None \<and> throws calm_world GetInstance = None
   \<and> throws calm_world IsDiamondDeployed = None \<and> throws calm_world ValidateConfiguration = None
   \<and> throws calm_world GetDiamond = None \<and> diamondDeployed calm_world \<and> configValid calm_world
   \<and> protocolVersion (deployedData calm_world) = Some 1 \<and> deployConfigVersion calm_world = Some 2
   \<and> \<not> truthy_bool (dryRun (example_upgrade None None))
   \<and> Call DeployDiamond \<in> set (fst (upgradeDiamond (example_upgrade None None) no_env calm_world))"
proof -
  have h: "validation_errors_rpc (example_upgrade None None) no_env = []
     \<and> throws calm_world NetworkQuery = None \<and> throws calm_world GetInstance = None
     \<and> throws calm_world IsDiamondDeployed = None \<and> throws calm_world ValidateConfiguration = None
     \<and> throws calm_world GetDiamond = None \<and> diamondDeployed calm_world \<and> configValid calm_world
     \<and> protocolVersion (deployedData calm_world) \<noteq> Some 0
     \<and> deployConfigVersion calm_world \<noteq> Some 0"
    by (simp add: validation_errors_rpc_def example_defs)
  have v: "protocolVersion (deployedData calm_world) = Some 1"
    "deployConfigVersion calm_world = Some 2" "\<not> truthy_bool (dryRun (example_upgrade None None))"
    by (simp_all add: example_defs)
  from upgrade_submits_iff [of "example_upgrade None None" no_env calm_world] h v
  have "Call DeployDiamond \<in> set (fst (upgradeDiamond (example_upgrade None None) no_env calm_world))"
    by simp
  with h v show ?thesis by simp
qed

text \<open>
  C1 as stated fails: with both the force flag and the dry-run flag set, the force flag
  is set and yet no upgrade is submitted.
\<close>

theorem upgrade_force_dry_run_counterexample:
  "truthy_bool (force (example_upgrade (Some True) (Some True)))
   \<and> Call DeployDiamond
       \<notin> set (fst (upgradeDiamond (example_upgrade (Some True) (Some True)) no_env calm_world))"
proof -
  have "truthy_bool (dryRun (example_upgrade (Some True) (Some True)))"
    by (simp add: example_defs)
  then have "Call DeployDiamond
       \<notin> set (fst (upgradeDiamond (example_upgrade (Some True) (Some True)) no_env calm_world))"
    using upgrade_only_if by blast
  then show ?thesis by (simp add: example_defs)
qed

lemma when_step_ok:
  "throws w GetDiamond = None \<Longrightarrow>
     when_do b (step w s l v) k = after (if b then [Step s, Call GetDiamond] else []) k"
  by (simp add: when_do_def step_def call_def after_def)

lemma Step_notin_createConfig_rpc: "Step s \<notin> set (fst (createConfig_rpc legacy options w))"
  by (simp add: createConfig_rpc_def split: option.splits)

lemma verify_steps_at_checks:
  assumes "validation_errors_rpc options env = []"
      and "throws w GetInstance = None" "throws w IsDiamondDeployed = None"
      and "throws w ValidateConfiguration = None" "throws w GetNetworkInfo = None"
      and "throws w GetDiamond = None"
      and "diamondDeployed w"
  shows "Step s \<in> set (fst (verifyDeployment options env w)) \<longleftrightarrow>
           s = ValidateABIs \<and>
             (truthy_bool (validateAbi options)
              \<or> \<not> truthy_bool (verifyContracts options) \<and> \<not> truthy_bool (validateSelectors options)
                \<and> \<not> truthy_bool (compareOnChain options))
         \<or> s = ValidateSelectors \<and>
             (truthy_bool (validateSelectors options)
              \<or> \<not> truthy_bool (verifyContracts options) \<and> \<not> truthy_bool (validateAbi options)
                \<and> \<not> truthy_bool (compareOnChain options))
         \<or> s = CompareOnChainState \<and>
             (truthy_bool (compareOnChain options)
              \<or> \<not> truthy_bool (verifyContracts options) \<and> \<not> truthy_bool (validateAbi options)
                \<and> \<not> truthy_bool (validateSelectors options))
         \<or> s = ShowContractVerificationInfo \<and> truthy_bool (verifyContracts options)"
proof -
  obtain evs config where c:
    "createConfig_rpc (legacy_config_verify options env) options w = (evs, config)"
    by (cases "createConfig_rpc (legacy_config_verify options env) options w")
  have n: "Step s \<notin> set evs" for s
    using Step_notin_createConfig_rpc [of s "legacy_config_verify options env" options w] c by simp
  show ?thesis
    unfolding verifyDeployment_def
    by (auto simp: validateOptions_rpc_ok [OF assms(1)] c assms call_ok when_step_ok when_after
          fst_after Let_def n)
qed

text \<open>
  C9. In the verify operation, once the run gets to the verification steps, each of ABI
  validation, selector validation and on-chain comparison runs if and only if its own
  flag is set or none of the other three flags (\<open>verifyContracts\<close> and the other two) is
  set. So with no flag all three run, and with only \<open>verifyContracts\<close> none of them runs.
\<close>

theorem verify_steps_gated:
  assumes "validation_errors_rpc options env = []"
      and "throws w GetInstance = None" and "throws w IsDiamondDeployed = None"
      and "throws w ValidateConfiguration = None" and "throws w GetNetworkInfo = None"
      and "throws w GetDiamond = None"
      and "diamondDeployed w"
  shows "(Step ValidateABIs \<in> set (fst (verifyDeployment options env w)) \<longleftrightarrow>
            truthy_bool (validateAbi options)
            \<or> \<not> truthy_bool (verifyContracts options) \<and> \<not> truthy_bool (validateSelectors options)
              \<and> \<not> truthy_bool (compareOnChain options))
       \<and> (Step ValidateSelectors \<in> set (fst (verifyDeployment options env w)) \<longleftrightarrow>
            truthy_bool (validateSelectors options)
            \<or> \<not> truthy_bool (verifyContracts options) \<and> \<not> truthy_bool (validateAbi options)
              \<and> \<not> truthy_bool (compareOnChain options))
       \<and> (Step CompareOnChainState \<in> set (fst (verifyDeployment options env w)) \<longleftrightarrow>
            truthy_bool (compareOnChain options)
            \<or> \<not> truthy_bool (verifyContracts options) \<and> \<not> truthy_bool (validateAbi options)
              \<and> \<not> truthy_bool (validateSelectors options))
       \<and> (\<not> truthy_bool (verifyContracts options) \<and> \<not> truthy_bool (validateAbi options)
            \<and> \<not> truthy_bool (validateSelectors options) \<and> \<not> truthy_bool (compareOnChain options)
          \<longrightarrow> Step ValidateABIs \<in> set (fst (verifyDeployment options env w))
            \<and> Step ValidateSelectors \<in> set (fst (verifyDeployment options env w))
            \<and> Step CompareOnChainState \<in> set (fst (verifyDeployment options env w)))
       \<and> (truthy_bool (verifyContracts options) \<and> \<not> truthy_bool (validateAbi options)
            \<and> \<not> truthy_bool (validateSelectors options) \<and> \<not> truthy_bool (compareOnChain options)
          \<longrightarrow> Step ValidateABIs \<notin> set (fst (verifyDeployment options env w))
            \<and> Step ValidateSelectors \<notin> set (fst (verifyDeployment options env w))
            \<and> Step CompareOnChainState \<notin> set (fst (verifyDeployment options env w)))"
  by (simp add: verify_steps_at_checks [OF assms])

theorem verify_steps_gated_witness:
  "validation_errors_rpc (example_verify (Some True)) no_env = []
   \<and> throws calm_world GetInstance = None \<and> throws calm_world IsDiamondDeployed = None
   \<and> throws calm_world ValidateConfiguration = None \<and> throws calm_world GetNetworkInfo = None
   \<and> throws calm_world GetDiamond = None \<and> diamondDeployed calm_world
   \<and> truthy_bool (verifyContracts (example_verify (Some True)))
   \<and> Step ValidateABIs \<notin> set (fst (verifyDeployment (example_verify (Some True)) no_env calm_world))
   \<and> Step ValidateSelectors \<notin> set (fst (verifyDeployment (example_verify (Some True)) no_env calm_world))
   \<and> Step CompareOnChainState \<notin> set (fst (verifyDeployment (example_verify (Some True)) no_env calm_world))"
proof -
  have h1: "validation_errors_rpc (example_verify (Some True)) no_env = []"
    by (simp add: validation_errors_rpc_def example_defs)
  have h2: "throws calm_world GetInstance = None" "throws calm_world IsDiamondDeployed = None"
    "throws calm_world ValidateConfiguration = None" "throws calm_world GetNetworkInfo = None"
    "throws calm_world GetDiamond = None" "diamondDeployed calm_world"
    by (simp_all add: example_defs)
  have f: "truthy_bool (verifyContracts (example_verify (Some True)))"
    "\<not> truthy_bool (validateAbi (example_verify (Some True)))"
    "\<not> truthy_bool (validateSelectors (example_verify (Some True)))"
    "\<not> truthy_bool (compareOnChain (example_verify (Some True)))"
    by (simp_all add: example_defs)
  from verify_steps_gated [OF h1 h2] f
  have "Step ValidateABIs \<notin> set (fst (verifyDeployment (example_verify (Some True)) no_env calm_world))
   \<and> Step ValidateSelectors \<notin> set (fst (verifyDeployment (example_verify (Some True)) no_env calm_world))
   \<and> Step CompareOnChainState \<notin> set (fst (verifyDeployment (example_verify (Some True)) no_env calm_world))"
    by blast
  with h1 h2 f show ?thesis by simp
qed

lemma length_validation_errors_deploy:
  "length (validation_errors_deploy options env) =
     of_bool (\<not> truthy_str (diamondName options))
     + of_bool (\<not> truthy_str (networkName options))
     + of_bool (\<not> truthy_str (privateKey options) \<and> \<not> truthy_str (env ''PRIVATE_KEY'')
                \<and> \<not> truthy_str (env ''TEST_PRIVATE_KEY''))
     + of_bool (useHardhatConfig options = Some False
                \<and> \<not> truthy_str (rpcUrl options) \<and> \<not> truthy_str (env ''RPC_URL''))"
  by (simp add: validation_errors_deploy_def)

lemma length_validation_errors_rpc:
  "length (validation_errors_rpc options env) =
     of_bool (\<not> truthy_str (diamondName options))
     + of_bool (\<not> truthy_str (networkName options))
     + of_bool (\<not> truthy_str (privateKey options) \<and> \<not> truthy_str (env ''PRIVATE_KEY'')
                \<and> \<not> truthy_str (env ''TEST_PRIVATE_KEY''))
     + of_bool (useHardhatConfig options = Some False
                \<and> \<not> truthy_str (rpcUrl options) \<and> \<not> truthy_str (env ''RPC_URL''))"
  by (simp add: validation_errors_rpc_def)

lemma length_validation_errors_status:
  "length (validation_errors_status options) =
     of_bool (\<not> truthy_str (diamondName options))
     + of_bool (\<not> truthy_str (rpcUrl options))
     + of_bool (\<not> truthy_str (privateKey options))"
  by (simp add: validation_errors_status_def)

lemma deploy_invalid:
  "validation_errors_deploy options env \<noteq> [] \<Longrightarrow>
     deployDiamond options env w = exit_report (validation_errors_deploy options env)"
  by (simp add: deployDiamond_def validateOptions_deploy_def)

lemma upgrade_invalid:
  "validation_errors_rpc options env \<noteq> [] \<Longrightarrow>
     upgradeDiamond options env w = exit_report (validation_errors_rpc options env)"
  by (simp add: upgradeDiamond_def validateOptions_rpc_def)

lemma verify_invalid:
  "validation_errors_rpc options env \<noteq> [] \<Longrightarrow>
     verifyDeployment options env w = exit_report (validation_errors_rpc options env)"
  by (simp add: verifyDeployment_def validateOptions_rpc_def)

lemma status_invalid:
  "validation_errors_status options \<noteq> [] \<Longrightarrow>
     checkStatus options w = exit_report (validation_errors_status options)"
  by (simp add: checkStatus_def validateOptions_status_def)

text \<open>
  C2. In each script (deploy, upgrade, verify, status) the validation of the options collects one error for every problem it
  detects (the number of errors is the number of failed checks), and when the list is not
  empty the whole run consists of printing the header and every collected error and
  exiting with status 1: no call to the deployer or the network is made.
\<close>

theorem validation_collects_all:
  "length (validation_errors_deploy d_options env) =
     of_bool (\<not> truthy_str (diamondName d_options))
     + of_bool (\<not> truthy_str (networkName d_options))
     + of_bool (\<not> truthy_str (privateKey d_options) \<and> \<not> truthy_str (env ''PRIVATE_KEY'')
                \<and> \<not> truthy_str (env ''TEST_PRIVATE_KEY''))
     + of_bool (useHardhatConfig d_options = Some False
                \<and> \<not> truthy_str (rpcUrl d_options) \<and> \<not> truthy_str (env ''RPC_URL''))
   \<and> length (validation_errors_rpc u_options env) =
     of_bool (\<not> truthy_str (diamondName u_options))
     + of_bool (\<not> truthy_str (networkName u_options))
     + of_bool (\<not> truthy_str (privateKey u_options) \<and> \<not> truthy_str (env ''PRIVATE_KEY'')
                \<and> \<not> truthy_str (env ''TEST_PRIVATE_KEY''))
     + of_bool (useHardhatConfig u_options = Some False
                \<and> \<not> truthy_str (rpcUrl u_options) \<and> \<not> truthy_str (env ''RPC_URL''))
   \<and> length (validation_errors_status s_options) =
     of_bool (\<not> truthy_str (diamondName s_options))
     + of_bool (\<not> truthy_str (rpcUrl s_options))
     + of_bool (\<not> truthy_str (privateKey s_options))
   \<and> (validation_errors_deploy d_options env \<noteq> [] \<longrightarrow>
        deployDiamond d_options env w =
          (Error ''Validation errors:''
             # map (\<lambda>e. Error (''  - '' @ e)) (validation_errors_deploy d_options env),
           Exited 1))
   \<and> (validation_errors_rpc u_options env \<noteq> [] \<longrightarrow>
        upgradeDiamond u_options env w =
          (Error ''Validation errors:''
             # map (\<lambda>e. Error (''  - '' @ e)) (validation_errors_rpc u_options env),
           Exited 1))
   \<and> (validation_errors_status s_options \<noteq> [] \<longrightarrow>
        checkStatus s_options w =
          (Error ''Validation errors:''
             # map (\<lambda>e. Error (''  - '' @ e)) (validation_errors_status s_options),
           Exited 1))
   \<and> (validation_errors_rpc v_options env \<noteq> [] \<longrightarrow>
        verifyDeployment v_options env w =
          (Error ''Validation errors:''
             # map (\<lambda>e. Error (''  - '' @ e)) (validation_errors_rpc v_options env),
           Exited 1))"
  using length_validation_errors_deploy [of d_options env]
    length_validation_errors_rpc [of u_options env]
    length_validation_errors_status [of s_options]
    deploy_invalid [of d_options env w] upgrade_invalid [of u_options env w]
    status_invalid [of s_options w] verify_invalid [of v_options env w]
  unfolding exit_report_def by blast

theorem validation_collects_all_witness:
  "length (validation_errors_deploy empty_deploy no_env) = 4
   \<and> length (validation_errors_rpc empty_upgrade no_env) = 4
   \<and> length (validation_errors_status empty_status) = 3
   \<and> deployDiamond empty_deploy no_env calm_world =
        (Error ''Validation errors:''
           # map (\<lambda>e. Error (''  - '' @ e)) (validation_errors_deploy empty_deploy no_env),
         Exited 1)
   \<and> upgradeDiamond empty_upgrade no_env calm_world =
        (Error ''Validation errors:''
           # map (\<lambda>e. Error (''  - '' @ e)) (validation_errors_rpc empty_upgrade no_env),
         Exited 1)
   \<and> checkStatus empty_status calm_world =
        (Error ''Validation errors:''
           # map (\<lambda>e. Error (''  - '' @ e)) (validation_errors_status empty_status),
         Exited 1)
   \<and> verifyDeployment empty_verify no_env calm_world =
        (Error ''Validation errors:''
           # map (\<lambda>e. Error (''  - '' @ e)) (validation_errors_rpc empty_verify no_env),
         Exited 1)"
proof -
  have e: "\<not> truthy_str (diamondName empty_deploy)" "\<not> truthy_str (networkName empty_deploy)"
    "\<not> truthy_str (privateKey empty_deploy)" "\<not> truthy_str (rpcUrl empty_deploy)"
    "useHardhatConfig empty_deploy = Some False"
    "\<not> truthy_str (diamondName empty_upgrade)" "\<not> truthy_str (networkName empty_upgrade)"
    "\<not> truthy_str (privateKey empty_upgrade)" "\<not> truthy_str (rpcUrl empty_upgrade)"
    "useHardhatConfig empty_upgrade = Some False"
    "\<not> truthy_str (diamondName empty_status)" "\<not> truthy_str (rpcUrl empty_status)"
    "\<not> truthy_str (privateKey empty_status)"
    "\<not> truthy_str (no_env ''PRIVATE_KEY'')" "\<not> truthy_str (no_env ''TEST_PRIVATE_KEY'')"
    "\<not> truthy_str (no_env ''RPC_URL'')"
    by (simp_all add: empty_deploy_def empty_upgrade_def empty_status_def no_env_def truthy_str_def)
  from validation_collects_all [where d_options = empty_deploy and env = no_env
      and u_options = empty_upgrade and s_options = empty_status and w = calm_world
      and v_options = empty_verify] e
  have l: "length (validation_errors_deploy empty_deploy no_env) = 4
     \<and> length (validation_errors_rpc empty_upgrade no_env) = 4
     \<and> length (validation_errors_status empty_status) = 3"
    by simp
  have "validation_errors_rpc empty_verify no_env \<noteq> []"
    by (simp add: validation_errors_rpc_def empty_verify_def truthy_str_def no_env_def)
  moreover from l have "validation_errors_deploy empty_deploy no_env \<noteq> []"
    "validation_errors_rpc empty_upgrade no_env \<noteq> []"
    "validation_errors_status empty_status \<noteq> []"
    by auto
  ultimately have "validation_errors_rpc empty_verify no_env \<noteq> []"
    "validation_errors_deploy empty_deploy no_env \<noteq> []"
    "validation_errors_rpc empty_upgrade no_env \<noteq> []"
    "validation_errors_status empty_status \<noteq> []"
    by blast+
  with validation_collects_all [where d_options = empty_deploy and env = no_env
      and u_options = empty_upgrade and s_options = empty_status and w = calm_world
      and v_options = empty_verify] l
  show ?thesis by blast
qed

lemma validateOptions_deploy_ok:
  "validation_errors_deploy options env = [] \<Longrightarrow> validateOptions_deploy options env = None"
  by (simp add: validateOptions_deploy_def)

lemma deploy_calls:
  assumes "Call x \<in> set (fst (deployDiamond options env w))"
  shows "x \<in> {CreateConfigFromHardhat, NetworkQuery, GetInstance, ValidateConfiguration,
              IsDiamondDeployed}
         \<or> (diamondDeployed w \<and> x = GetDiamond) \<or> (\<not> diamondDeployed w \<and> x = DeployDiamond)"
proof -
  obtain evs config where c: "createConfig_deploy options env w = (evs, config)"
    by (cases "createConfig_deploy options env w")
  have n: "Call x \<in> set evs \<Longrightarrow> x = CreateConfigFromHardhat"
    using Call_in_createConfig_deploy [of x options env w] c by simp
  show ?thesis
  proof (cases "validateOptions_deploy options env")
    case (Some r)
    then show ?thesis
      using assms by (auto simp: deployDiamond_def validateOptions_deploy_def exit_report_def Let_def
          split: if_splits)
  next
    case None
    then show ?thesis
      using assms n
      by (auto simp: deployDiamond_def c Let_def in_after Call_in_call Call_in_printPreInfo
          Call_notin_validation_failed report_deployed_def split: if_splits)
  qed
qed

lemma deploy_when_deployed:
  assumes "validation_errors_deploy options env = []"
      and "throws w NetworkQuery = None" "throws w GetInstance = None"
      and "throws w ValidateConfiguration = None" "throws w IsDiamondDeployed = None"
      and "throws w GetDiamond = None"
      and "configValid w" "diamondDeployed w"
  shows "snd (deployDiamond options env w) = Returned"
    and "LogAddress (DiamondAddress (deployedData w)) \<in> set (fst (deployDiamond options env w))"
    and "protocolVersion (deployedData w) = Some v \<Longrightarrow> v \<noteq> 0 \<Longrightarrow>
           LogVersion v \<in> set (fst (deployDiamond options env w))"
proof -
  obtain evs config where c: "createConfig_deploy options env w = (evs, config)"
    by (cases "createConfig_deploy options env w")
  have r: "deployDiamond options env w =
      after evs (after [Provider (cfg_rpcUrl config), Call NetworkQuery, Call GetInstance,
         Call ValidateConfiguration, Call IsDiamondDeployed,
         Log ''Diamond is already deployed. Use upgrade-rpc.ts for upgrades.'', Call GetDiamond]
        (report_deployed w, Returned))"
    unfolding deployDiamond_def
    by (simp add: validateOptions_deploy_ok [OF assms(1)] c assms call_ok printPreInfo_ok
        Let_def after_def)
  show "snd (deployDiamond options env w) = Returned"
    by (simp add: r snd_after)
  show "LogAddress (DiamondAddress (deployedData w)) \<in> set (fst (deployDiamond options env w))"
    by (simp add: r fst_after report_deployed_def)
  show "LogVersion v \<in> set (fst (deployDiamond options env w))"
    if "protocolVersion (deployedData w) = Some v" "v \<noteq> 0"
    using that by (simp add: r fst_after report_deployed_def truthy_int_def)
qed

text \<open>
  If the diamond is already deployed, the deploy operation never calls the deployment:
  whatever the options and the outside world, the only outside calls of the run are the
  configuration loading, the network query, the creation of the deployer, its
  configuration validation, the deployed-check and the read of the diamond data. When
  the run gets to the deployed-check, it reports the existing diamond address, and the
  protocol version when the record has a non-zero one, and returns.
\<close>

lemma deploy_skips_when_deployed:
  "(diamondDeployed w \<longrightarrow>
      Call DeployDiamond \<notin> set (fst (deployDiamond options env w))
      \<and> (\<forall>x. Call x \<in> set (fst (deployDiamond options env w)) \<longrightarrow>
             x \<in> {CreateConfigFromHardhat, NetworkQuery, GetInstance, ValidateConfiguration,
                   IsDiamondDeployed, GetDiamond}))
   \<and> (diamondDeployed w \<and> validation_errors_deploy options env = []
        \<and> throws w NetworkQuery = None \<and> throws w GetInstance = None
        \<and> throws w ValidateConfiguration = None \<and> throws w IsDiamondDeployed = None
        \<and> throws w GetDiamond = None \<and> configValid w \<longrightarrow>
      snd (deployDiamond options env w) = Returned
      \<and> LogAddress (DiamondAddress (deployedData w)) \<in> set (fst (deployDiamond options env w))
      \<and> (\<forall>v. protocolVersion (deployedData w) = Some v \<and> v \<noteq> 0 \<longrightarrow>
             LogVersion v \<in> set (fst (deployDiamond options env w))))"
  using deploy_calls [of _ options env w] deploy_when_deployed [of options env w]
  by (intro conjI impI allI) auto

lemma deploy_skips_when_deployed_example:
  "diamondDeployed calm_world \<and> validation_errors_deploy example_deploy no_env = []
   \<and> throws calm_world NetworkQuery = None \<and> throws calm_world GetInstance = None
   \<and> throws calm_world ValidateConfiguration = None \<and> throws calm_world IsDiamondDeployed = None
   \<and> throws calm_world GetDiamond = None \<and> configValid calm_world
   \<and> protocolVersion (deployedData calm_world) = Some 1
   \<and> Call DeployDiamond \<notin> set (fst (deployDiamond example_deploy no_env calm_world))
   \<and> snd (deployDiamond example_deploy no_env calm_world) = Returned
   \<and> LogAddress (Some ''0xB44476E2aFBe1D10F6FE9ca11B23e200033c56f7'')
        \<in> set (fst (deployDiamond example_deploy no_env calm_world))
   \<and> LogVersion 1 \<in> set (fst (deployDiamond example_deploy no_env calm_world))"
proof -
  have h: "diamondDeployed calm_world \<and> validation_errors_deploy example_deploy no_env = []
     \<and> throws calm_world NetworkQuery = None \<and> throws calm_world GetInstance = None
     \<and> throws calm_world ValidateConfiguration = None \<and> throws calm_world IsDiamondDeployed = None
     \<and> throws calm_world GetDiamond = None \<and> configValid calm_world"
    by (simp add: validation_errors_deploy_def example_defs)
  have v: "protocolVersion (deployedData calm_world) = Some 1"
    "DiamondAddress (deployedData calm_world) = Some ''0xB44476E2aFBe1D10F6FE9ca11B23e200033c56f7''"
    by (simp_all add: example_defs)
  from deploy_skips_when_deployed [of calm_world example_deploy no_env] h v
  have "Call DeployDiamond \<notin> set (fst (deployDiamond example_deploy no_env calm_world))
   \<and> snd (deployDiamond example_deploy no_env calm_world) = Returned
   \<and> LogAddress (Some ''0xB44476E2aFBe1D10F6FE9ca11B23e200033c56f7'')
        \<in> set (fst (deployDiamond example_deploy no_env calm_world))
   \<and> LogVersion 1 \<in> set (fst (deployDiamond example_deploy no_env calm_world))"
    by simp
  with h v show ?thesis by simp
qed

text \<open>
  C3. The deploy operation on an already deployed diamond is to report the existing
  diamond address and protocol version. On a diamond deployed at protocol version 0 it
  makes no deployment, reports the address and returns, but reports no protocol
  version: the test \<open>if (deployedData.protocolVersion)\<close> takes the version 0 for a
  missing one.
\<close>

theorem deploy_version_zero_unreported:
  "diamondDeployed version_zero_world
   \<and> protocolVersion (deployedData version_zero_world) = Some 0
   \<and> deployDiamond example_deploy no_env version_zero_world =
       ([Call CreateConfigFromHardhat, Provider (Some ''http://localhost:8545''),
         Call NetworkQuery, Call GetInstance, Call ValidateConfiguration,
         Call IsDiamondDeployed,
         Log ''Diamond is already deployed. Use upgrade-rpc.ts for upgrades.'',
         Call GetDiamond,
         LogAddress (Some ''0xB44476E2aFBe1D10F6FE9ca11B23e200033c56f7'')],
        Returned)"
proof -
  have w: "diamondDeployed version_zero_world" "configValid version_zero_world"
    "throws version_zero_world = (\<lambda>c. None)"
    "hardhatConfig version_zero_world = example_config"
    "DiamondAddress (deployedData version_zero_world)
       = Some ''0xB44476E2aFBe1D10F6FE9ca11B23e200033c56f7''"
    "protocolVersion (deployedData version_zero_world) = Some 0"
    by (simp_all add: version_zero_world_def calm_world_def)
  have v: "validateOptions_deploy example_deploy no_env = None"
    by (simp add: validateOptions_deploy_def validation_errors_deploy_def example_defs)
  have c: "createConfig_deploy example_deploy no_env version_zero_world
             = ([Call CreateConfigFromHardhat], example_config)"
    by (simp add: createConfig_deploy_def w example_deploy_def truthy_str_def)
  have u: "cfg_rpcUrl example_config = Some ''http://localhost:8545''"
    by (simp add: example_config_def)
  show ?thesis
    by (simp add: deployDiamond_def v c w u call_def printPreInfo_def after_def report_deployed_def
        truthy_int_def)
qed

lemma rpc_error_only_legacy:
  "useHardhatConfig options \<noteq> Some False \<Longrightarrow>
     ''RPC URL is required when hardhat config is disabled (--rpc-url or RPC_URL environment variable)''
       \<notin> set (validation_errors_deploy options env)"
  by (simp add: validation_errors_deploy_def Let_def)

lemma createConfig_deploy_fallback:
  assumes "useHardhatConfig options \<noteq> Some False" "rpcUrl options = None"
      and "env ''RPC_URL'' = None" "throws w CreateConfigFromHardhat = Some msg"
  shows "cfg_rpcUrl (snd (createConfig_deploy options env w)) = None"
  using assms
  by (simp add: createConfig_deploy_def legacy_config_deploy_def truthy_str_def or_str_def)

lemma deploy_reaches_provider:
  assumes "validation_errors_deploy options env = []"
  shows "Provider (cfg_rpcUrl (snd (createConfig_deploy options env w)))
           \<in> set (fst (deployDiamond options env w))"
  unfolding deployDiamond_def
  by (simp add: validateOptions_deploy_ok [OF assms] Let_def fst_after printPreInfo_def
      split: prod.splits)

text \<open>
  C10. In \<open>createConfig\<close> of the deploy script, if the hardhat integration was not
  switched off, loading the hardhat configuration throws, and neither the \<open>rpcUrl\<close>
  option nor the \<open>RPC_URL\<close> environment variable is set, then the validation of the
  options does not report the missing RPC URL, the legacy fallback returns a
  configuration whose \<open>rpcUrl\<close> is undefined, and, when the options are otherwise valid,
  the deploy operation goes on to build its provider on this undefined endpoint.
\<close>

theorem createConfig_undefined_rpcUrl:
  assumes "useHardhatConfig options \<noteq> Some False"
      and "rpcUrl options = None" and "env ''RPC_URL'' = None"
      and "throws w CreateConfigFromHardhat = Some msg"
  shows "''RPC URL is required when hardhat config is disabled (--rpc-url or RPC_URL environment variable)''
           \<notin> set (validation_errors_deploy options env)
       \<and> cfg_rpcUrl (snd (createConfig_deploy options env w)) = None
       \<and> (validation_errors_deploy options env = [] \<longrightarrow>
            Provider None \<in> set (fst (deployDiamond options env w)))"
  using assms rpc_error_only_legacy [of options env]
    createConfig_deploy_fallback [of options env w msg] deploy_reaches_provider [of options env w]
  by auto


theorem createConfig_undefined_rpcUrl_witness:
  "useHardhatConfig example_deploy \<noteq> Some False \<and> rpcUrl example_deploy = None
   \<and> no_env ''RPC_URL'' = None
   \<and> throws no_hardhat_world CreateConfigFromHardhat = Some ''Network not found in hardhat config''
   \<and> validation_errors_deploy example_deploy no_env = []
   \<and> cfg_rpcUrl (snd (createConfig_deploy example_deploy no_env no_hardhat_world)) = None
   \<and> Provider None \<in> set (fst (deployDiamond example_deploy no_env no_hardhat_world))"
proof -
  have h: "useHardhatConfig example_deploy \<noteq> Some False" "rpcUrl example_deploy = None"
    "no_env ''RPC_URL'' = None"
    "throws no_hardhat_world CreateConfigFromHardhat = Some ''Network not found in hardhat config''"
    by (simp_all add: example_defs no_hardhat_world_def)
  have v: "validation_errors_deploy example_deploy no_env = []"
    by (simp add: validation_errors_deploy_def example_defs)
  from createConfig_undefined_rpcUrl [of example_deploy no_env no_hardhat_world
      "''Network not found in hardhat config''"] h v
  have "cfg_rpcUrl (snd (createConfig_deploy example_deploy no_env no_hardhat_world)) = None
    \<and> Provider None \<in> set (fst (deployDiamond example_deploy no_env no_hardhat_world))"
    by simp
  with h v show ?thesis by simp
qed

lemma parse_default_literals:
  "parseFloat ''1.2'' = Num 1.2" "parseInt ''3'' = Num 3" "parseInt ''2000'' = Num 2000"
  by code_simp+

lemma env_or_unset: "\<not> truthy_str (env var) \<Longrightarrow> env_or env var lit = lit"
  by (simp add: env_or_def truthy_str_def split: option.splits)

lemma command_defaults:
  "flag_gasLimitMultiplier cl = None \<Longrightarrow> \<not> truthy_str (env ''GAS_LIMIT_MULTIPLIER'') \<Longrightarrow>
     opt_gasLimitMultiplier cl env = Num 1.2"
  "flag_maxRetries cl = None \<Longrightarrow> \<not> truthy_str (env ''MAX_RETRIES'') \<Longrightarrow>
     opt_maxRetries cl env = Num 3"
  "flag_retryDelayMs cl = None \<Longrightarrow> \<not> truthy_str (env ''RETRY_DELAY_MS'') \<Longrightarrow>
     opt_retryDelayMs cl env = Num 2000"
  by (simp_all add: opt_gasLimitMultiplier_def opt_maxRetries_def opt_retryDelayMs_def
      option_value_def env_or_unset parse_default_literals)

lemma shown_defaults:
  "\<not> truthy_num (cfg_gasLimitMultiplier config) \<Longrightarrow> \<not> truthy_num (cfg_maxRetries config) \<Longrightarrow>
   \<not> truthy_num (cfg_retryDelayMs config) \<Longrightarrow>
     shown_settings config =
       [LogNum ''Gas Limit Multiplier'' (Num 1.2), LogNum ''Max Retries'' (Num 3),
        LogNum ''Retry Delay'' (Num 2000)]"
  by (simp add: shown_settings_def or_num_def)

lemma validateOptions_status_ok:
  "validation_errors_status options = [] \<Longrightarrow> validateOptions_status options = None"
  by (simp add: validateOptions_status_def)

lemma status_shows_settings:
  assumes "validation_errors_status options = []"
      and "throws w GetInstance = None" "throws w GetDeploymentStatus = None"
      and "throws w IsDiamondDeployed = None" "throws w GetDiamond = None"
      and "throws w GetNetworkInfo = None" "throws w ValidateConfiguration = None"
      and "throws w GetConfig = None"
      and "truthy_bool (showConfig options)"
  shows "set (shown_settings (deployerConfig w)) \<subseteq> set (fst (checkStatus options w))"
proof -
  have s: "showConfiguration w l v k =
      after ([Step ShowConfiguration, Call GetConfig, Call GetNetworkInfo, Call GetDiamond]
             @ (if truthy_int (deployConfigVersion w)
                then [LogVersion (the (deployConfigVersion w))] else [])
             @ shown_settings (deployerConfig w)) k" for l v k
    by (simp add: showConfiguration_def assms call_ok after_def)
  show ?thesis
    unfolding checkStatus_def
    by (auto simp: validateOptions_status_ok [OF assms(1)] assms call_ok Let_def when_do_def s
        fst_after)
qed

text \<open>
  C4. When the flag is absent and the environment variable is unset (or empty), the deploy
  and the upgrade command give the options \<open>maxRetries = 3\<close>, \<open>retryDelayMs = 2000\<close> and
  \<open>gasLimitMultiplier = 1.2\<close>; and when the deployer's configuration carries none of the
  three, the status script displays the same three values as the effective configuration.
\<close>

theorem default_retry_settings:
  "(flag_gasLimitMultiplier cl = None \<and> \<not> truthy_str (env ''GAS_LIMIT_MULTIPLIER'') \<longrightarrow>
      gasLimitMultiplier (deploy_command cl env) = Some (Num 1.2)
      \<and> gasLimitMultiplier (upgrade_command cl env) = Some (Num 1.2))
   \<and> (flag_maxRetries cl = None \<and> \<not> truthy_str (env ''MAX_RETRIES'') \<longrightarrow>
      maxRetries (deploy_command cl env) = Some (Num 3)
      \<and> maxRetries (upgrade_command cl env) = Some (Num 3))
   \<and> (flag_retryDelayMs cl = None \<and> \<not> truthy_str (env ''RETRY_DELAY_MS'') \<longrightarrow>
      retryDelayMs (deploy_command cl env) = Some (Num 2000)
      \<and> retryDelayMs (upgrade_command cl env) = Some (Num 2000))
   \<and> (\<not> truthy_num (cfg_gasLimitMultiplier config) \<and> \<not> truthy_num (cfg_maxRetries config)
        \<and> \<not> truthy_num (cfg_retryDelayMs config) \<longrightarrow>
      shown_settings config =
        [LogNum ''Gas Limit Multiplier'' (Num 1.2), LogNum ''Max Retries'' (Num 3),
         LogNum ''Retry Delay'' (Num 2000)])
   \<and> (validation_errors_status options = [] \<and> throws w GetInstance = None
        \<and> throws w GetDeploymentStatus = None \<and> throws w IsDiamondDeployed = None
        \<and> throws w GetDiamond = None \<and> throws w GetNetworkInfo = None
        \<and> throws w ValidateConfiguration = None \<and> throws w GetConfig = None
        \<and> truthy_bool (showConfig options) \<longrightarrow>
      set (shown_settings (deployerConfig w)) \<subseteq> set (fst (checkStatus options w)))"
  using command_defaults [of cl env] shown_defaults [of config] status_shows_settings [of options w]
  by (simp add: deploy_command_def upgrade_command_def)


theorem default_retry_settings_witness:
  "flag_gasLimitMultiplier bare_command_line = None \<and> flag_maxRetries bare_command_line = None
   \<and> flag_retryDelayMs bare_command_line = None
   \<and> \<not> truthy_str (no_env ''GAS_LIMIT_MULTIPLIER'') \<and> \<not> truthy_str (no_env ''MAX_RETRIES'')
   \<and> \<not> truthy_str (no_env ''RETRY_DELAY_MS'')
   \<and> \<not> truthy_num (cfg_gasLimitMultiplier example_config)
   \<and> \<not> truthy_num (cfg_maxRetries example_config) \<and> \<not> truthy_num (cfg_retryDelayMs example_config)
   \<and> validation_errors_status example_status = [] \<and> truthy_bool (showConfig example_status)
   \<and> gasLimitMultiplier (deploy_command bare_command_line no_env) = Some (Num 1.2)
   \<and> maxRetries (upgrade_command bare_command_line no_env) = Some (Num 3)
   \<and> retryDelayMs (deploy_command bare_command_line no_env) = Some (Num 2000)
   \<and> LogNum ''Gas Limit Multiplier'' (Num 1.2) \<in> set (fst (checkStatus example_status calm_world))
   \<and> LogNum ''Max Retries'' (Num 3) \<in> set (fst (checkStatus example_status calm_world))
   \<and> LogNum ''Retry Delay'' (Num 2000) \<in> set (fst (checkStatus example_status calm_world))"
proof -
  have h: "flag_gasLimitMultiplier bare_command_line = None"
    "flag_maxRetries bare_command_line = None" "flag_retryDelayMs bare_command_line = None"
    "\<not> truthy_str (no_env ''GAS_LIMIT_MULTIPLIER'')" "\<not> truthy_str (no_env ''MAX_RETRIES'')"
    "\<not> truthy_str (no_env ''RETRY_DELAY_MS'')"
    "\<not> truthy_num (cfg_gasLimitMultiplier example_config)"
    "\<not> truthy_num (cfg_maxRetries example_config)" "\<not> truthy_num (cfg_retryDelayMs example_config)"
    by (simp_all add: bare_command_line_def example_defs truthy_num_def)
  have g: "validation_errors_status example_status = []" "truthy_bool (showConfig example_status)"
    "throws calm_world GetInstance = None" "throws calm_world GetDeploymentStatus = None"
    "throws calm_world IsDiamondDeployed = None" "throws calm_world GetDiamond = None"
    "throws calm_world GetNetworkInfo = None" "throws calm_world ValidateConfiguration = None"
    "throws calm_world GetConfig = None" "deployerConfig calm_world = example_config"
    by (simp_all add: validation_errors_status_def example_status_def example_defs)
  from default_retry_settings [of bare_command_line no_env example_config example_status calm_world]
    h g
  have "gasLimitMultiplier (deploy_command bare_command_line no_env) = Some (Num 1.2)
   \<and> maxRetries (upgrade_command bare_command_line no_env) = Some (Num 3)
   \<and> retryDelayMs (deploy_command bare_command_line no_env) = Some (Num 2000)
   \<and> LogNum ''Gas Limit Multiplier'' (Num 1.2) \<in> set (fst (checkStatus example_status calm_world))
   \<and> LogNum ''Max Retries'' (Num 3) \<in> set (fst (checkStatus example_status calm_world))
   \<and> LogNum ''Retry Delay'' (Num 2000) \<in> set (fst (checkStatus example_status calm_world))"
    by auto
  with h g show ?thesis by simp
qed

lemma verify_facets_success:
  "verify_facets fails d fs = (fs', calls, None) \<Longrightarrow>
     fs' = map (\<lambda>(n, f). (n, f\<lparr>verified := Some True\<rparr>)) fs
     \<and> calls = concat (map (\<lambda>(n, f). [GetContractAt n d, VerifyFacet (address f)])
                          (filter (\<lambda>(n, f). \<not> truthy_bool (verified f)) fs))"
proof (induction fs arbitrary: fs' calls)
  case Nil
  then show ?case by simp
next
  case (Cons p fs)
  obtain n f where p: "p = (n, f)" by (cases p)
  obtain r c e where rec: "verify_facets fails d fs = (r, c, e)"
    by (cases "verify_facets fails d fs")
  show ?case
  proof (cases "truthy_bool (verified f)")
    case True
    then have v: "verified f = Some True"
      by (auto simp: truthy_bool_def split: option.splits)
    from Cons.prems True have "e = None" "fs' = (n, f) # r" "calls = c"
      by (simp_all add: p rec)
    with Cons.IH [of r c] rec v True show ?thesis
      by (simp add: p)
  next
    case False
    from Cons.prems False have ok: "\<not> fails (GetContractAt n d)" "\<not> fails (VerifyFacet (address f))"
      by (auto simp: p rec Let_def split: if_splits)
    with Cons.prems False have "e = None" "fs' = (n, f\<lparr>verified := Some True\<rparr>) # r"
      "calls = GetContractAt n d # VerifyFacet (address f) # c"
      by (simp_all add: p rec Let_def)
    with Cons.IH [of r c] rec False show ?thesis
      by (simp add: p)
  qed
qed


lemma VerifyContracts_unfold:
  "VerifyContracts fails info =
     (case verify_facets fails (NetDiamondAddress info) (FacetDeployedInfo info) of
        (facets', calls, err) \<Rightarrow>
          (case map_of (FacetDeployedInfo info) ''DiamondCutFacet'' of
             None \<Rightarrow> (info, [], Some TypeError)
           | Some f \<Rightarrow>
               if truthy_bool (verified f)
               then (info\<lparr>FacetDeployedInfo := facets'\<rparr>, calls, err)
               else if fails (VerifyDiamond (NetDiamondAddress info) (NetDeployerAddress info) (address f))
               then (info, [VerifyDiamond (NetDiamondAddress info) (NetDeployerAddress info) (address f)],
                     Some (CallFailed (VerifyDiamond (NetDiamondAddress info) (NetDeployerAddress info) (address f))))
               else (info\<lparr>FacetDeployedInfo := facets'\<rparr>,
                     VerifyDiamond (NetDiamondAddress info) (NetDeployerAddress info) (address f) # calls, err)))"
  unfolding VerifyContracts_def Let_def
  by (simp add: truthy_bool_def split: option.splits prod.splits)

lemma VerifyContracts_success:
  assumes "VerifyContracts fails info = (info', calls, None)"
  shows "\<exists>pre c. calls = pre @ c \<and> (pre = [] \<or> (\<exists>x y z. pre = [VerifyDiamond x y z]))
           \<and> verify_facets fails (NetDiamondAddress info) (FacetDeployedInfo info)
               = (FacetDeployedInfo info', c, None)
           \<and> info' = info\<lparr>FacetDeployedInfo := FacetDeployedInfo info'\<rparr>"
proof -
  obtain r c e where rec:
    "verify_facets fails (NetDiamondAddress info) (FacetDeployedInfo info) = (r, c, e)"
    by (cases "verify_facets fails (NetDiamondAddress info) (FacetDeployedInfo info)")
  note a = assms [unfolded VerifyContracts_unfold rec prod.case]
  show ?thesis
  proof (cases "map_of (FacetDeployedInfo info) ''DiamondCutFacet''")
    case None
    with a show ?thesis by simp
  next
    case (Some f)
    show ?thesis
    proof (cases "truthy_bool (verified f)")
      case True
      with a Some have "info' = info\<lparr>FacetDeployedInfo := r\<rparr>" "calls = [] @ c" "e = None"
        by simp_all
      with rec show ?thesis by (intro exI [of _ "[]"] exI [of _ c]) simp
    next
      case False
      let ?c = "VerifyDiamond (NetDiamondAddress info) (NetDeployerAddress info) (address f)"
      from a Some False have nf: "\<not> fails ?c"
        by (auto split: if_splits)
      with a Some False
      have "info' = info\<lparr>FacetDeployedInfo := r\<rparr>" "calls = [?c] @ c" "e = None"
        by simp_all
      with rec show ?thesis by (intro exI [of _ "[?c]"] exI [of _ c]) simp
    qed
  qed
qed

text \<open>
  C8. When \<open>VerifyContracts\<close> returns without an error, the record is the one it was given
  with every facet entry marked verified: each entry whose flag was not set has been
  submitted for verification and its flag set to \<open>true\<close>, and each entry already marked
  verified is unchanged and was not submitted.
\<close>

theorem VerifyContracts_all_verified:
  assumes "VerifyContracts fails info = (info', calls, None)"
  shows "info' = info\<lparr>FacetDeployedInfo :=
                    map (\<lambda>(n, f). (n, f\<lparr>verified := Some True\<rparr>)) (FacetDeployedInfo info)\<rparr>
       \<and> (\<forall>n f. (n, f) \<in> set (FacetDeployedInfo info') \<longrightarrow> verified f = Some True)
       \<and> (\<forall>n f. (n, f) \<in> set (FacetDeployedInfo info) \<and> \<not> truthy_bool (verified f) \<longrightarrow>
              VerifyFacet (address f) \<in> set calls)
       \<and> (\<forall>n f. (n, f) \<in> set (FacetDeployedInfo info) \<and> truthy_bool (verified f) \<longrightarrow>
              (n, f) \<in> set (FacetDeployedInfo info'))
       \<and> (\<forall>n. GetContractAt n (NetDiamondAddress info) \<in> set calls \<longleftrightarrow>
              (\<exists>f. (n, f) \<in> set (FacetDeployedInfo info) \<and> \<not> truthy_bool (verified f)))"
proof -
  let ?fs = "FacetDeployedInfo info" and ?d = "NetDiamondAddress info"
  from VerifyContracts_success [OF assms] obtain pre c where
    calls0: "calls = pre @ c"
    and pre: "pre = [] \<or> (\<exists>x y z. pre = [VerifyDiamond x y z])"
    and vf: "verify_facets fails ?d ?fs = (FacetDeployedInfo info', c, None)"
    and eq: "info' = info\<lparr>FacetDeployedInfo := FacetDeployedInfo info'\<rparr>"
    by blast
  from verify_facets_success [OF vf]
  have fs': "FacetDeployedInfo info' = map (\<lambda>(n, f). (n, f\<lparr>verified := Some True\<rparr>)) ?fs"
    and c: "c = concat (map (\<lambda>(n, f). [GetContractAt n ?d, VerifyFacet (address f)])
                (filter (\<lambda>(n, f). \<not> truthy_bool (verified f)) ?fs))"
    by simp_all
  have calls: "calls = pre @ concat (map (\<lambda>(n, f). [GetContractAt n ?d, VerifyFacet (address f)])
                (filter (\<lambda>(n, f). \<not> truthy_bool (verified f)) ?fs))"
    using calls0 c by simp
  have same: "f\<lparr>verified := Some True\<rparr> = f" if "truthy_bool (verified f)" for f :: FacetInfo
    using that by (cases "verified f") (auto simp: truthy_bool_def)
  show ?thesis
  proof (intro conjI allI impI)
    show "info' = info\<lparr>FacetDeployedInfo := map (\<lambda>(n, f). (n, f\<lparr>verified := Some True\<rparr>)) ?fs\<rparr>"
      using eq fs' by simp
    show "verified f = Some True" if "(n, f) \<in> set (FacetDeployedInfo info')" for n f
      using that by (auto simp: fs')
    show "VerifyFacet (address f) \<in> set calls"
      if "(n, f) \<in> set ?fs \<and> \<not> truthy_bool (verified f)" for n f
      using that by (force simp: calls)
    show "(n, f) \<in> set (FacetDeployedInfo info')"
      if "(n, f) \<in> set ?fs \<and> truthy_bool (verified f)" for n f
      using that same [of f] by (force simp: fs')
    show "GetContractAt n ?d \<in> set calls \<longleftrightarrow>
            (\<exists>f. (n, f) \<in> set ?fs \<and> \<not> truthy_bool (verified f))" for n
      using pre by (auto simp: calls)
  qed
qed

theorem VerifyContracts_all_verified_witness:
  "VerifyContracts (\<lambda>c. False) example_network =
     (example_network\<lparr>FacetDeployedInfo :=
        [(''DiamondCutFacet'', \<lparr> address = Some ''0xc1'', verified = Some True \<rparr>),
         (''DiamondLoupeFacet'', \<lparr> address = Some ''0xc2'', verified = Some True \<rparr>),
         (''OwnershipFacet'', \<lparr> address = Some ''0xc3'', verified = Some True \<rparr>)]\<rparr>,
      [GetContractAt ''DiamondLoupeFacet'' (Some ''0xB44476E2aFBe1D10F6FE9ca11B23e200033c56f7''),
       VerifyFacet (Some ''0xc2''),
       GetContractAt ''OwnershipFacet'' (Some ''0xB44476E2aFBe1D10F6FE9ca11B23e200033c56f7''),
       VerifyFacet (Some ''0xc3'')],
      None)
   \<and> VerifyFacet (Some ''0xc2'') \<in> set (fst (snd (VerifyContracts (\<lambda>c. False) example_network)))
   \<and> GetContractAt ''DiamondCutFacet'' (NetDiamondAddress example_network)
        \<notin> set (fst (snd (VerifyContracts (\<lambda>c. False) example_network)))"
proof -
  have r: "VerifyContracts (\<lambda>c. False) example_network =
     (example_network\<lparr>FacetDeployedInfo :=
        [(''DiamondCutFacet'', \<lparr> address = Some ''0xc1'', verified = Some True \<rparr>),
         (''DiamondLoupeFacet'', \<lparr> address = Some ''0xc2'', verified = Some True \<rparr>),
         (''OwnershipFacet'', \<lparr> address = Some ''0xc3'', verified = Some True \<rparr>)]\<rparr>,
      [GetContractAt ''DiamondLoupeFacet'' (Some ''0xB44476E2aFBe1D10F6FE9ca11B23e200033c56f7''),
       VerifyFacet (Some ''0xc2''),
       GetContractAt ''OwnershipFacet'' (Some ''0xB44476E2aFBe1D10F6FE9ca11B23e200033c56f7''),
       VerifyFacet (Some ''0xc3'')],
      None)"
    by (simp add: VerifyContracts_def example_network_def truthy_bool_def Let_def)
  have m: "(''DiamondLoupeFacet'', \<lparr> address = Some ''0xc2'', verified = Some False \<rparr>)
             \<in> set (FacetDeployedInfo example_network)"
    "\<not> truthy_bool (verified \<lparr> address = Some ''0xc2'', verified = Some False \<rparr>)"
    "\<And>f. (''DiamondCutFacet'', f) \<in> set (FacetDeployedInfo example_network)
           \<Longrightarrow> truthy_bool (verified f)"
    by (auto simp: example_network_def truthy_bool_def)
  from VerifyContracts_all_verified [OF r] m
  have "VerifyFacet (Some ''0xc2'') \<in> set (fst (snd (VerifyContracts (\<lambda>c. False) example_network)))
   \<and> GetContractAt ''DiamondCutFacet'' (NetDiamondAddress example_network)
        \<notin> set (fst (snd (VerifyContracts (\<lambda>c. False) example_network)))"
    unfolding r by force
  with r show ?thesis by simp
qed

section \<open>Properties of the core\<close>

lemma retry_loop_exhausted:
  assumes "\<And>n. \<exists>f. rpc n = Inl f \<and> retriable f"
  shows "attempts (retry_loop d rpc k a w l) = a + k
       \<and> (\<exists>c. outcome_of (retry_loop d rpc k a w l) = Inl (TransactionError True c))"
proof (induction k arbitrary: a w l)
  case 0
  show ?case by simp
next
  case (Suc k)
  from assms [of a] obtain f where f: "rpc a = Inl f" "retriable f" by blast
  with Suc.IH [of "Suc a"] show ?case by simp
qed

lemma retry_loop_fatal:
  assumes "rpc (a + j) = Inl f" and "\<not> retriable f" and "j < k"
      and "\<And>i. i < j \<Longrightarrow> \<exists>g. rpc (a + i) = Inl g \<and> retriable g"
  shows "attempts (retry_loop d rpc k a w l) = Suc (a + j)
       \<and> outcome_of (retry_loop d rpc k a w l) = Inl (TransactionError False (Some f))"
  using assms
proof (induction k arbitrary: a j w l)
  case 0
  then show ?case by simp
next
  case (Suc k)
  show ?case
  proof (cases j)
    case 0
    with Suc.prems show ?thesis by simp
  next
    case (Suc j')
    from Suc.prems(4) [of 0] Suc obtain g where g: "rpc a = Inl g" "retriable g" by auto
    have "attempts (retry_loop d rpc k (Suc a) w' l') = Suc (Suc a + j')
       \<and> outcome_of (retry_loop d rpc k (Suc a) w' l') = Inl (TransactionError False (Some f))"
      for w' l'
    proof (rule Suc.IH)
      show "rpc (Suc a + j') = Inl f" using Suc.prems(1) Suc by simp
      show "\<not> retriable f" by (rule Suc.prems(2))
      show "j' < k" using Suc.prems(3) Suc by simp
      show "\<exists>g. rpc (Suc a + i) = Inl g \<and> retriable g" if "i < j'" for i
        using Suc.prems(4) [of "Suc i"] that Suc by simp
    qed
    with g Suc show ?thesis by simp
  qed
qed

text \<open>
  C5. A network call whose underlying RPC fails at every attempt with a retriable failure
  is attempted exactly \<open>maxRetries\<close> times and then fails with a retriable
  \<open>TransactionError\<close>. A fatal failure (insufficient balance, reverted execution,
  malformed call data) at some attempt, after retriable failures only, ends the call at
  that attempt with a fatal \<open>TransactionError\<close> carrying it: no further attempt is made.
\<close>

theorem retry_bound:
  "((\<forall>n. \<exists>f. rpc n = Inl f \<and> retriable f) \<longrightarrow>
      attempts (withRetry m d rpc) = m
      \<and> (\<exists>c. outcome_of (withRetry m d rpc) = Inl (TransactionError True c)))
   \<and> (j < m \<and> rpc j = Inl f \<and> f \<in> {InsufficientBalance, ExecutionReverted, MalformedCallData}
        \<and> (\<forall>i<j. \<exists>g. rpc i = Inl g \<and> retriable g) \<longrightarrow>
      attempts (withRetry m d rpc) = Suc j
      \<and> outcome_of (withRetry m d rpc) = Inl (TransactionError False (Some f)))"
proof (intro conjI impI)
  assume a: "\<forall>n. \<exists>f. rpc n = Inl f \<and> retriable f"
  then have "\<And>n. \<exists>f. rpc n = Inl f \<and> retriable f" by blast
  from retry_loop_exhausted [OF this, where d = d and k = m and a = 0 and w = 0 and l = None]
  show "attempts (withRetry m d rpc) = m"
    and "\<exists>c. outcome_of (withRetry m d rpc) = Inl (TransactionError True c)"
    by (simp_all add: withRetry_def)
next
  assume b: "j < m \<and> rpc j = Inl f
      \<and> f \<in> {InsufficientBalance, ExecutionReverted, MalformedCallData}
      \<and> (\<forall>i<j. \<exists>g. rpc i = Inl g \<and> retriable g)"
  then have nr: "\<not> retriable f" by auto
  from b have p: "rpc (0 + j) = Inl f" "j < m"
    "\<And>i. i < j \<Longrightarrow> \<exists>g. rpc (0 + i) = Inl g \<and> retriable g"
    by simp_all
  have "attempts (retry_loop d rpc m 0 0 None) = Suc (0 + j)
       \<and> outcome_of (retry_loop d rpc m 0 0 None) = Inl (TransactionError False (Some f))"
    using p(1) nr p(2) p(3) by (rule retry_loop_fatal)
  then show "attempts (withRetry m d rpc) = Suc j"
    and "outcome_of (withRetry m d rpc) = Inl (TransactionError False (Some f))"
    by (simp_all add: withRetry_def)
qed

theorem retry_bound_witness:
  "timing_out 0 = Inl RpcTimeout \<and> retriable RpcTimeout
   \<and> attempts (withRetry 3 2000 timing_out) = 3
   \<and> outcome_of (withRetry 3 2000 timing_out) = Inl (TransactionError True (Some RpcTimeout))
   \<and> reverting_third 2 = Inl ExecutionReverted
   \<and> attempts (withRetry 5 2000 reverting_third) = 3
   \<and> outcome_of (withRetry 5 2000 reverting_third)
       = Inl (TransactionError False (Some ExecutionReverted))"
proof -
  have t: "\<forall>n. \<exists>f. timing_out n = Inl f \<and> retriable f"
    by (simp add: timing_out_def)
  have r: "(2::nat) < 5 \<and> reverting_third 2 = Inl ExecutionReverted
      \<and> ExecutionReverted \<in> {InsufficientBalance, ExecutionReverted, MalformedCallData}
      \<and> (\<forall>i<2. \<exists>g. reverting_third i = Inl g \<and> retriable g)"
    by (simp add: reverting_third_def)
  from retry_bound [of timing_out 3 2000 2 ExecutionReverted] t
  have 1: "attempts (withRetry 3 2000 timing_out) = 3" by blast
  from retry_bound [of reverting_third 5 2000 2 ExecutionReverted] r
  have 2: "attempts (withRetry 5 2000 reverting_third) = 3
    \<and> outcome_of (withRetry 5 2000 reverting_third)
       = Inl (TransactionError False (Some ExecutionReverted))"
    by simp
  have 3: "outcome_of (withRetry 3 2000 timing_out) = Inl (TransactionError True (Some RpcTimeout))"
    by (simp add: withRetry_def timing_out_def numeral_3_eq_3)
  from 1 2 3 r show ?thesis by (simp add: timing_out_def)
qed

lemma map_of_register:
  "map_of (register s n p reg) s' =
     (if s' = s \<and> (case map_of reg s of None \<Rightarrow> True | Some e \<Rightarrow> priority e \<le> p)
      then Some \<lparr> selector = s, facetName = n, priority = p, action = NoAction \<rparr>
      else map_of reg s')"
  by (simp add: register_def update_conv')

lemma map_of_register_selectors:
  "map_of (foldl (\<lambda>r s. register s n p r) reg sels) s' =
     (if s' \<in> set sels \<and> (case map_of reg s' of None \<Rightarrow> True | Some e \<Rightarrow> priority e \<le> p)
      then Some \<lparr> selector = s', facetName = n, priority = p, action = NoAction \<rparr>
      else map_of reg s')"
proof (induction sels arbitrary: reg)
  case Nil
  show ?case by simp
next
  case (Cons x xs)
  show ?case
    by (auto simp: Cons.IH map_of_register split: option.splits)
qed

lemma map_of_register_facet:
  "map_of (register_facet reg f) s =
     (if s \<in> set (facet_selectors f)
         \<and> (case map_of reg s of None \<Rightarrow> True | Some e \<Rightarrow> priority e \<le> facet_priority f)
      then Some \<lparr> selector = s, facetName = name f, priority = facet_priority f,
                  action = NoAction \<rparr>
      else map_of reg s)"
  by (simp add: register_facet_def map_of_register_selectors)

lemma registered_bounded:
  assumes "case map_of reg s of None \<Rightarrow> True | Some e \<Rightarrow> priority e \<le> P"
      and "\<And>g. g \<in> set fs \<Longrightarrow> s \<in> set (facet_selectors g) \<Longrightarrow> facet_priority g \<le> P"
  shows "case map_of (foldl register_facet reg fs) s of None \<Rightarrow> True | Some e \<Rightarrow> priority e \<le> P"
  using assms
proof (induction fs arbitrary: reg)
  case Nil
  then show ?case by simp
next
  case (Cons g fs)
  have "case map_of (register_facet reg g) s of None \<Rightarrow> True | Some e \<Rightarrow> priority e \<le> P"
    using Cons.prems(1) Cons.prems(2) [of g]
    by (simp add: map_of_register_facet split: option.splits)
  then show ?case
    using Cons.IH [of "register_facet reg g"] Cons.prems(2) by simp
qed

lemma registered_kept:
  assumes "map_of reg s = Some e"
      and "\<And>g. g \<in> set fs \<Longrightarrow> s \<in> set (facet_selectors g) \<Longrightarrow> facet_priority g < priority e"
  shows "map_of (foldl register_facet reg fs) s = Some e"
  using assms
proof (induction fs arbitrary: reg)
  case Nil
  then show ?case by simp
next
  case (Cons g fs)
  have "map_of (register_facet reg g) s = Some e"
    using Cons.prems(1) Cons.prems(2) [of g]
    by (auto simp: map_of_register_facet)
  then show ?case
    using Cons.IH [of "register_facet reg g"] Cons.prems(2) by simp
qed

lemma last_highest_wins:
  assumes "s \<in> set (facet_selectors f)"
      and "\<And>g. g \<in> set before \<Longrightarrow> s \<in> set (facet_selectors g) \<Longrightarrow>
             facet_priority g \<le> facet_priority f"
      and "\<And>g. g \<in> set later \<Longrightarrow> s \<in> set (facet_selectors g) \<Longrightarrow>
             facet_priority g < facet_priority f"
  shows "map_of (build_registry (before @ f # later)) s =
           Some \<lparr> selector = s, facetName = name f, priority = facet_priority f,
                  action = NoAction \<rparr>"
proof -
  let ?r = "foldl register_facet [] before"
  let ?e = "\<lparr> selector = s, facetName = name f, priority = facet_priority f, action = NoAction \<rparr>"
  have "case map_of ?r s of None \<Rightarrow> True | Some e \<Rightarrow> priority e \<le> facet_priority f"
    by (rule registered_bounded) (simp_all add: assms(2))
  then have "map_of (register_facet ?r f) s = Some ?e"
    using assms(1) by (simp add: map_of_register_facet)
  then have "map_of (foldl register_facet (register_facet ?r f) later) s = Some ?e"
    by (rule registered_kept) (simp add: assms(3))
  then show ?thesis
    by (simp add: build_registry_def)
qed

lemma highest_wins:
  assumes "f \<in> set target" and "s \<in> set (facet_selectors f)"
      and "\<And>g. g \<in> set target \<Longrightarrow> s \<in> set (facet_selectors g) \<Longrightarrow> g \<noteq> f \<Longrightarrow>
             facet_priority g < facet_priority f"
  shows "resolve (build_registry target) s = Some (name f)"
proof -
  from split_list_last [OF assms(1)] obtain before later where
    t: "target = before @ f # later" and l: "f \<notin> set later"
    by blast
  have "map_of (build_registry (before @ f # later)) s =
           Some \<lparr> selector = s, facetName = name f, priority = facet_priority f,
                  action = NoAction \<rparr>"
  proof (rule last_highest_wins [OF assms(2)])
    show "facet_priority g \<le> facet_priority f"
      if "g \<in> set before" "s \<in> set (facet_selectors g)" for g
      using assms(3) [of g] that t by (cases "g = f") auto
    show "facet_priority g < facet_priority f"
      if "g \<in> set later" "s \<in> set (facet_selectors g)" for g
      using assms(3) [of g] that t l by auto
  qed
  then show ?thesis
    by (simp add: resolve_def t)
qed

text \<open>
  C7. If a facet of the target configuration claims a selector and every other facet
  claiming it has a strictly lower priority, the registry resolves the selector to that
  facet, in whatever order the same facets are listed. In general the selector goes to
  the facet registered last among those of the highest priority claiming it: on a tie the
  most recently registered facet wins.
\<close>

theorem priority_determinism:
  "(f \<in> set target \<and> s \<in> set (facet_selectors f)
      \<and> (\<forall>g \<in> set target. s \<in> set (facet_selectors g) \<and> g \<noteq> f \<longrightarrow>
             facet_priority g < facet_priority f) \<longrightarrow>
      (\<forall>target'. set target' = set target \<longrightarrow> resolve (build_registry target') s = Some (name f)))
   \<and> (s \<in> set (facet_selectors f)
      \<and> (\<forall>g \<in> set before. s \<in> set (facet_selectors g) \<longrightarrow> facet_priority g \<le> facet_priority f)
      \<and> (\<forall>g \<in> set later. s \<in> set (facet_selectors g) \<longrightarrow> facet_priority g < facet_priority f) \<longrightarrow>
      resolve (build_registry (before @ f # later)) s = Some (name f))"
proof (intro conjI impI allI)
  fix target'
  assume a: "f \<in> set target \<and> s \<in> set (facet_selectors f)
      \<and> (\<forall>g \<in> set target. s \<in> set (facet_selectors g) \<and> g \<noteq> f \<longrightarrow>
             facet_priority g < facet_priority f)"
    and e: "set target' = set target"
  show "resolve (build_registry target') s = Some (name f)"
    by (rule highest_wins) (use a e in auto)
next
  assume b: "s \<in> set (facet_selectors f)
      \<and> (\<forall>g \<in> set before. s \<in> set (facet_selectors g) \<longrightarrow> facet_priority g \<le> facet_priority f)
      \<and> (\<forall>g \<in> set later. s \<in> set (facet_selectors g) \<longrightarrow> facet_priority g < facet_priority f)"
  have "map_of (build_registry (before @ f # later)) s =
           Some \<lparr> selector = s, facetName = name f, priority = facet_priority f,
                  action = NoAction \<rparr>"
    by (rule last_highest_wins) (use b in auto)
  then show "resolve (build_registry (before @ f # later)) s = Some (name f)"
    by (simp add: resolve_def)
qed

theorem priority_determinism_witness:
  "FacetB \<in> set [FacetA, FacetB] \<and> 0x22 \<in> set (facet_selectors FacetB)
   \<and> 0x22 \<in> set (facet_selectors FacetA) \<and> facet_priority FacetA < facet_priority FacetB
   \<and> resolve (build_registry [FacetA, FacetB]) 0x22 = Some ''FacetB''
   \<and> resolve (build_registry [FacetB, FacetA]) 0x22 = Some ''FacetB''
   \<and> 0x11 \<in> set (facet_selectors FacetA) \<and> 0x11 \<in> set (facet_selectors FacetC)
   \<and> facet_priority FacetA = facet_priority FacetC
   \<and> resolve (build_registry [FacetA, FacetC]) 0x11 = Some ''FacetC''
   \<and> resolve (build_registry [FacetC, FacetA]) 0x11 = Some ''FacetA''"
proof -
  have h: "FacetB \<in> set [FacetA, FacetB]" "0x22 \<in> set (facet_selectors FacetB)"
    "0x22 \<in> set (facet_selectors FacetA)" "facet_priority FacetA < facet_priority FacetB"
    "0x11 \<in> set (facet_selectors FacetA)" "0x11 \<in> set (facet_selectors FacetC)"
    "facet_priority FacetA = facet_priority FacetC"
    "name FacetA = ''FacetA''" "name FacetB = ''FacetB''" "name FacetC = ''FacetC''"
    by (simp_all add: FacetA_def FacetB_def FacetC_def)
  have s: "set [FacetB, FacetA] = set [FacetA, FacetB]" by auto
  from priority_determinism [of FacetB "[FacetA, FacetB]" "0x22" "[]" "[]"] h s
  have 1: "resolve (build_registry [FacetA, FacetB]) 0x22 = Some ''FacetB''"
    "resolve (build_registry [FacetB, FacetA]) 0x22 = Some ''FacetB''"
    by auto
  from priority_determinism [of FacetC "[]" "0x11" "[FacetA]" "[]"] h
  have 2: "resolve (build_registry [FacetA, FacetC]) 0x11 = Some ''FacetC''"
    by simp
  from priority_determinism [of FacetA "[]" "0x11" "[FacetC]" "[]"] h
  have 3: "resolve (build_registry [FacetC, FacetA]) 0x11 = Some ''FacetA''"
    by simp
  from h 1 2 3 show ?thesis by simp
qed

lemma in_set_update:
  "x \<in> set (AList.update k v al) \<Longrightarrow> x \<in> set al \<or> x = (k, v)"
  by (induction al) (auto split: if_splits)

lemma registry_ok_register: "registry_ok reg \<Longrightarrow> registry_ok (register s n p reg)"
  by (auto simp: registry_ok_def register_def distinct_update list_all_iff dest!: in_set_update)

lemma registry_ok_register_facet: "registry_ok reg \<Longrightarrow> registry_ok (register_facet reg f)"
proof -
  have "registry_ok reg \<Longrightarrow> registry_ok (foldl (\<lambda>r s. register s n p r) reg sels)" for n p sels
    by (induction sels arbitrary: reg) (simp_all add: registry_ok_register)
  then show "registry_ok reg \<Longrightarrow> registry_ok (register_facet reg f)"
    by (simp add: register_facet_def)
qed

lemma registry_ok_build: "registry_ok (build_registry target)"
proof -
  have "registry_ok reg \<Longrightarrow> registry_ok (foldl register_facet reg fs)" for reg fs
    by (induction fs arbitrary: reg) (simp_all add: registry_ok_register_facet)
  then show ?thesis
    by (simp add: build_registry_def registry_ok_def)
qed

lemma atoms_group_changes: "atoms (group_changes cs) = cs"
proof (induction cs rule: group_changes.induct)
  case 1
  show ?case by (simp add: atoms_def)
next
  case (2 act a s rest)
  then show ?case
    by (cases "group_changes rest") (auto simp: atoms_def)
qed

lemma set_atoms: "set (atoms ops) = (\<Union>g \<in> set ops. (\<lambda>s. (cut_action g, facetAddress g, s)) ` set (selectors g))"
  by (auto simp: atoms_def)

lemma set_atoms_reconcile: "set (atoms (reconcile cutFacet target onchain)) = set (changes cutFacet target onchain)"
proof -
  have "set (atoms (reconcile cutFacet target onchain))
          = set (atoms (group_changes (changes cutFacet target onchain)))"
    unfolding reconcile_def set_atoms by simp
  then show ?thesis by (simp add: atoms_group_changes)
qed

lemma apply_cuts_atoms: "apply_cuts ops onchain = fold apply_change (atoms ops) onchain"
  unfolding apply_cuts_def atoms_def
  by (induction ops arbitrary: onchain) (simp_all add: apply_cut_def fold_map comp_def)

lemma map_of_apply_change:
  "map_of (apply_change c onchain) s =
     (if snd (snd c) = s \<and> fst c \<noteq> NoAction then routed c else map_of onchain s)"
  by (cases c; cases "fst c")
     (auto simp: apply_change_def routed_def update_conv' delete_conv')

lemma untouched:
  "\<forall>c \<in> set cs. snd (snd c) \<noteq> s \<Longrightarrow> map_of (fold apply_change cs onchain) s = map_of onchain s"
  by (induction cs arbitrary: onchain) (simp_all add: map_of_apply_change)

lemma touched:
  assumes "\<exists>c \<in> set cs. snd (snd c) = s"
      and "\<forall>c \<in> set cs. snd (snd c) = s \<longrightarrow> fst c \<noteq> NoAction \<and> routed c = v"
  shows "map_of (fold apply_change cs onchain) s = v"
  using assms
proof (induction cs arbitrary: onchain)
  case Nil
  then show ?case by simp
next
  case (Cons c cs)
  show ?case
  proof (cases "\<exists>d \<in> set cs. snd (snd d) = s")
    case True
    with Cons.IH [of "apply_change c onchain"] Cons.prems(2) show ?thesis by simp
  next
    case False
    with Cons.prems(1) have c: "snd (snd c) = s" by auto
    from False have "map_of (fold apply_change cs (apply_change c onchain)) s
        = map_of (apply_change c onchain) s"
      by (intro untouched) auto
    with c Cons.prems(2) show ?thesis
      by (simp add: map_of_apply_change)
  qed
qed

lemma pair_survives:
  "(s, a) \<in> set (fold apply_change cs onchain) \<Longrightarrow>
     (s, a) \<in> set onchain \<or> (\<exists>act. act \<noteq> Remove \<and> (act, a, s) \<in> set cs)"
proof (induction cs arbitrary: onchain)
  case Nil
  then show ?case by simp
next
  case (Cons c cs)
  from Cons.IH [OF Cons.prems [simplified]]
  consider "(s, a) \<in> set (apply_change c onchain)"
    | "\<exists>act. act \<noteq> Remove \<and> (act, a, s) \<in> set cs"
    by blast
  then show ?case
  proof cases
    case 1
    obtain act b t where c: "c = (act, b, t)" by (cases c)
    from 1 have "(s, a) \<in> set onchain \<or> (act \<noteq> Remove \<and> (s, a) = (t, b))"
      by (cases act) (auto simp: c apply_change_def AList.delete_eq dest: in_set_update)
    then show ?thesis by (auto simp: c)
  next
    case 2
    then show ?thesis by auto
  qed
qed


lemma map_of_mark_actions_None:
  "map_of (mark_actions target onchain reg) s = None \<longleftrightarrow> map_of reg s = None"
  by (force simp: map_of_eq_None_iff mark_actions_def)

lemma changes_alt:
  "changes cutFacet target onchain =
     concat (map (entry_diff target onchain) (build_registry target))
     @ concat (map (orphan_change cutFacet (build_registry target)) onchain)"
proof -
  have 1: "map (entry_change target) (mark_actions target onchain reg)
             = map (entry_diff target onchain) reg" for reg
    by (simp add: mark_actions_def entry_diff_def split_def)
  have 2: "orphan_change cutFacet (mark_actions target onchain reg) = orphan_change cutFacet reg" for reg
    by (rule ext) (simp add: orphan_change_def map_of_mark_actions_None)
  show ?thesis
    by (simp add: changes_def Let_def 1 2)
qed

lemma entry_diff_cases:
  "selector e = s \<Longrightarrow>
   entry_diff target onchain (s, e) =
     (case facet_address_of target (facetName e) of
        None \<Rightarrow> []
      | Some a \<Rightarrow>
          (case map_of onchain s of
             None \<Rightarrow> [(Add, a, s)]
           | Some owner \<Rightarrow> if owner = a then [] else [(Replace, a, s)]))"
  by (simp add: entry_diff_def entry_change_def pending_action_def split: option.splits)

lemma registry_entry_unique:
  assumes "registry_ok reg" "(s, e) \<in> set reg" "(s, e') \<in> set reg"
  shows "e' = e"
proof -
  from assms(1) have d: "distinct (map fst reg)" by (simp add: registry_ok_def)
  from map_of_is_SomeI [OF d assms(2)] map_of_is_SomeI [OF d assms(3)]
  show ?thesis by simp
qed

lemma registry_entry_selector:
  assumes "registry_ok reg" "(s, e) \<in> set reg"
  shows "selector e = s"
  using assms by (auto simp: registry_ok_def list_all_iff)

lemma change_of_selector:
  assumes "c \<in> set (changes cutFacet target onchain)" and "snd (snd c) = s"
  shows "(\<exists>e. (s, e) \<in> set (build_registry target) \<and> c \<in> set (entry_diff target onchain (s, e)))
       \<or> (map_of (build_registry target) s = None \<and> c = (Remove, 0, s)
          \<and> (\<exists>owner. (s, owner) \<in> set onchain \<and> owner \<noteq> cutFacet))"
proof -
  let ?reg = "build_registry target"
  from assms(1) consider se where "se \<in> set ?reg" "c \<in> set (entry_diff target onchain se)"
    | so where "so \<in> set onchain" "c \<in> set (orphan_change cutFacet ?reg so)"
    by (auto simp: changes_alt)
  then show ?thesis
  proof cases
    case 1
    obtain s' e where se: "se = (s', e)" by (cases se)
    have "selector e = s'"
      using registry_entry_selector [OF registry_ok_build] 1(1) se by blast
    with 1(2) se have "snd (snd c) = s'"
      by (auto simp: entry_diff_cases split: option.splits if_splits)
    with assms(2) 1 se show ?thesis by auto
  next
    case 2
    obtain s' owner where so: "so = (s', owner)" by (cases so)
    from 2(2) so have "c = (Remove, 0, s')" "map_of ?reg s' = None" "owner \<noteq> cutFacet"
      by (auto simp: orphan_change_def split: if_splits)
    with assms(2) 2(1) so show ?thesis by auto
  qed
qed

lemma registry_selector_routed:
  assumes e: "(s, e) \<in> set (build_registry target)"
      and a: "facet_address_of target (facetName e) = Some a"
  shows "map_of (apply_cuts (reconcile cutFacet target onchain) onchain) s = Some a"
proof -
  let ?reg = "build_registry target"
  let ?D = "changes cutFacet target onchain"
  let ?cs = "atoms (reconcile cutFacet target onchain)"
  have set_cs: "set ?cs = set ?D" by (rule set_atoms_reconcile)
  have sel: "selector e = s"
    using registry_entry_selector [OF registry_ok_build e] .
  have notNone: "map_of ?reg s \<noteq> None"
    using e by (auto simp: map_of_eq_None_iff intro: rev_image_eqI)
  have only: "c \<in> set (entry_diff target onchain (s, e))" if "c \<in> set ?D" "snd (snd c) = s" for c
  proof -
    from change_of_selector [OF that] notNone obtain e' where
      "(s, e') \<in> set ?reg" "c \<in> set (entry_diff target onchain (s, e'))"
      by blast
    with registry_entry_unique [OF registry_ok_build e] show ?thesis by blast
  qed
  have mem: "set (entry_diff target onchain (s, e)) \<subseteq> set ?D"
    using e by (force simp: changes_alt)
  show ?thesis
  proof (cases "map_of onchain s = Some a")
    case True
    then have "entry_diff target onchain (s, e) = []"
      by (simp add: entry_diff_cases [OF sel] a)
    with only have "\<forall>c \<in> set ?cs. snd (snd c) \<noteq> s"
      unfolding set_cs by fastforce
    then show ?thesis
      by (simp add: apply_cuts_atoms untouched True)
  next
    case False
    then obtain act where act: "entry_diff target onchain (s, e) = [(act, a, s)]" "act \<noteq> NoAction"
      "act \<noteq> Remove"
      by (cases "map_of onchain s") (auto simp: entry_diff_cases [OF sel] a)
    have "map_of (fold apply_change ?cs onchain) s = Some a"
    proof (rule touched)
      show "\<exists>c \<in> set ?cs. snd (snd c) = s"
        unfolding set_cs using mem act(1) by force
      show "\<forall>c \<in> set ?cs. snd (snd c) = s \<longrightarrow> fst c \<noteq> NoAction \<and> routed c = Some a"
        unfolding set_cs using only act by (cases act) (fastforce simp: routed_def)+
    qed
    then show ?thesis by (simp add: apply_cuts_atoms)
  qed
qed

lemma orphan_left_is_guarded:
  assumes p: "(s, owner) \<in> set (apply_cuts (reconcile cutFacet target onchain) onchain)"
      and n: "map_of (build_registry target) s = None"
  shows "owner = cutFacet"
proof (rule ccontr)
  assume ne: "owner \<noteq> cutFacet"
  let ?reg = "build_registry target"
  let ?D = "changes cutFacet target onchain"
  let ?cs = "atoms (reconcile cutFacet target onchain)"
  have set_cs: "set ?cs = set ?D" by (rule set_atoms_reconcile)
  have noentry: "(s, e) \<notin> set ?reg" for e
    using n by (auto simp: map_of_eq_None_iff intro: rev_image_eqI)
  have rem: "c = (Remove, 0, s)" if "c \<in> set ?D" "snd (snd c) = s" for c
    using change_of_selector [OF that] noentry by blast
  from pair_survives [OF p [unfolded apply_cuts_atoms]]
  have "(s, owner) \<in> set onchain"
    unfolding set_cs using rem by fastforce
  with ne n have "(Remove, 0, s) \<in> set ?D"
    by (force simp: changes_alt orphan_change_def)
  then have ex: "\<exists>c \<in> set ?cs. snd (snd c) = s"
    unfolding set_cs by force
  have "\<forall>c \<in> set ?cs. snd (snd c) = s \<longrightarrow> fst c \<noteq> NoAction \<and> routed c = None"
  proof (intro ballI impI)
    fix c assume "c \<in> set ?cs" "snd (snd c) = s"
    then have "c = (Remove, 0, s)" using rem by (simp add: set_cs)
    then show "fst c \<noteq> NoAction \<and> routed c = None" by (simp add: routed_def)
  qed
  with ex have "map_of (fold apply_change ?cs onchain) s = None"
    by (rule touched)
  then have "s \<notin> fst ` set (apply_cuts (reconcile cutFacet target onchain) onchain)"
    by (simp add: apply_cuts_atoms map_of_eq_None_iff)
  with p show False by force
qed

text \<open>
  C6. Running the reconciler twice against the same target configuration and the same
  diamond yields an empty list of cut operations on the second run: once the cut
  operations computed by the first run have been applied to the on-chain facet state,
  the run against the resulting state finds nothing to do. This holds for every target
  configuration, every on-chain state and every cut-management facet.
\<close>

theorem reconcile_idempotent:
  "reconcile cutFacet target (apply_cuts (reconcile cutFacet target onchain) onchain) = []"
proof -
  let ?reg = "build_registry target"
  let ?after = "apply_cuts (reconcile cutFacet target onchain) onchain"
  have 1: "entry_diff target ?after se = []" if "se \<in> set ?reg" for se
  proof -
    obtain s e where se: "se = (s, e)" by (cases se)
    have sel: "selector e = s"
      using registry_entry_selector [OF registry_ok_build] that se by blast
    show ?thesis
    proof (cases "facet_address_of target (facetName e)")
      case None
      then show ?thesis by (simp add: se entry_diff_cases [OF sel])
    next
      case (Some a)
      from registry_selector_routed [OF that [unfolded se] Some]
      show ?thesis by (simp add: se entry_diff_cases [OF sel] Some)
    qed
  qed
  have 2: "orphan_change cutFacet ?reg so = []" if "so \<in> set ?after" for so
  proof -
    obtain s owner where so: "so = (s, owner)" by (cases so)
    show ?thesis
      using orphan_left_is_guarded [OF that [unfolded so]]
      by (auto simp: orphan_change_def so)
  qed
  have "changes cutFacet target ?after = []"
    by (simp add: changes_alt 1 2)
  then show ?thesis
    by (simp add: reconcile_def)
qed

text \<open>
  The first scenario of the specification: FacetA and FacetB, both claiming \<open>0x22\<close>,
  against an empty diamond give \<open>Add FacetA [0x11]\<close> and \<open>Add FacetB [0x22, 0x33]\<close>; and
  the run after these two operations have been applied gives nothing.
\<close>

lemma reconcile_scenario_empty_diamond:
  "reconcile 0xC [FacetA, FacetB] [] =
     [\<lparr> cut_action = Add, facetAddress = 0xA, selectors = [0x11] \<rparr>,
      \<lparr> cut_action = Add, facetAddress = 0xB, selectors = [0x22, 0x33] \<rparr>]"
  "reconcile 0xC [FacetA, FacetB] (apply_cuts (reconcile 0xC [FacetA, FacetB] []) []) = []"
  by code_simp (rule reconcile_idempotent)

end
